theory Spec2Isabelle
  imports Complex_Main "HOL-Library.Word"
begin

section \<open>Go values, types and the library behaviour the gateway relies on\<close>

text \<open>
  The gateway works on \<^verbatim>\<open>interface{}\<close> values and on \<^verbatim>\<open>reflect.Type\<close>.
  A reflected type is given by what the code reads from it: its \<^verbatim>\<open>String()\<close>,
  its \<^verbatim>\<open>Kind()\<close> and, for the kinds that have one, its \<^verbatim>\<open>Elem()\<close>.
\<close>

datatype kind =
    KInvalid | KBool
  | KInt | KInt8 | KInt16 | KInt32 | KInt64
  | KUint | KUint8 | KUint16 | KUint32 | KUint64 | KUintptr
  | KFloat32 | KFloat64 | KComplex64 | KComplex128
  | KArray | KChan | KFunc | KInterface | KMap | KPointer | KSlice
  | KString | KStruct | KUnsafePointer

datatype rtype = RType (type_name: string) (type_kind: kind) (type_elem: "rtype option")

text \<open>
  A \<^verbatim>\<open>float64\<close> is a sign, a mantissa and a binary exponent (the value
  \<open>\<plusminus> m * 2 ^ e\<close>), an infinity or a NaN.
\<close>

datatype float64 = F64 bool nat int | F64_Inf bool | F64_NaN

text \<open>
  Dynamic values: the six shapes \<^verbatim>\<open>encoding/json\<close> decodes into an
  \<^verbatim>\<open>interface{}\<close> (nil, bool, float64, string, slice, map), the integer and
  \<^verbatim>\<open>float32\<close> values \<^verbatim>\<open>convert\<close> produces, and \<open>VObject\<close> for a value
  of any other type, known by its dynamic type and an identity.
\<close>

datatype go_value =
    VNil
  | VBool bool
  | VFloat64 float64
  | VString string
  | VSlice "go_value list"
  | VMap "(string \<times> go_value) list"
  | VInteger kind int
  | VFloat32 float64
  | VObject rtype nat

text \<open>
  Run-time panics, and error values. A run-time panic is itself an error value
  (\<^verbatim>\<open>runtime.Error\<close>): \<open>TypeAssertionError\<close> is the failed type assertion
  as an error, \<open>RuntimeError\<close> any other recovered panic.
\<close>

datatype panic =
    InterfaceConversion string "rtype option"
  | IndexOutOfRange nat nat
  | NilPointerDereference
  | ElemOfInvalidType kind
  | CallArgumentCount nat nat
  | CallUsingZeroValue
  | CallUsingWrongType rtype rtype

datatype error =
    TypeAssertionError string "rtype option"
  | ConvertError rtype "rtype option"
  | RuntimeError panic
  | ExternalError string

datatype 'a outcome = Ok 'a | Err error | Panic panic

text \<open>
  What the Go implementation and the packages outside this repository decide is taken as
  a parameter: the width of \<^verbatim>\<open>int\<close>, the implementation-dependent result of a
  float-to-integer conversion that does not fit, rounding to \<^verbatim>\<open>float32\<close>, the
  \<^verbatim>\<open>%v\<close> text of the values not formatted below, assignability between two
  different types (\<^verbatim>\<open>reflect\<close>'s \<^verbatim>\<open>AssignableTo\<close>: a value to an interface
  it implements, identical underlying types one of which is unnamed), the lower-casing
  of a string that is not all ASCII, URL and number parsing, request construction and
  JSON encoding.
\<close>

record goenv =
  int_bits :: nat
  cast_overflow :: "kind \<Rightarrow> float64 \<Rightarrow> int"
  round32 :: "float64 \<Rightarrow> float64"
  fmt_g :: "float64 \<Rightarrow> string"
  fmt_other :: "go_value \<Rightarrow> string"
  assignable_to :: "rtype \<Rightarrow> rtype \<Rightarrow> bool"
  unicode_ToLower :: "string \<Rightarrow> string"
  url_Parse_Host :: "string \<Rightarrow> error + string"
  SplitHostPort :: "string \<Rightarrow> string \<times> string"
  Atoi :: "string \<Rightarrow> error + int"
  NewRequest_ok :: "string \<Rightarrow> bool"
  json_Marshal :: "(string \<rightharpoonup> go_value) \<Rightarrow> string"

abbreviation basic :: "string \<Rightarrow> kind \<Rightarrow> rtype" where
  "basic n k \<equiv> RType n k None"

abbreviation empty_interface :: rtype where
  "empty_interface \<equiv> RType ''interface {}'' KInterface None"

fun kind_name :: "kind \<Rightarrow> string" where
  "kind_name KInt = ''int''"
| "kind_name KInt8 = ''int8''"
| "kind_name KInt16 = ''int16''"
| "kind_name KInt32 = ''int32''"
| "kind_name KInt64 = ''int64''"
| "kind_name KUint = ''uint''"
| "kind_name KUint8 = ''uint8''"
| "kind_name KUint16 = ''uint16''"
| "kind_name KUint32 = ''uint32''"
| "kind_name KUint64 = ''uint64''"
| "kind_name KBool = ''bool''"
| "kind_name KFloat32 = ''float32''"
| "kind_name KFloat64 = ''float64''"
| "kind_name KString = ''string''"
| "kind_name _ = ''''"

text \<open>\<^verbatim>\<open>reflect.TypeOf\<close>: the dynamic type, \<open>None\<close> for the nil interface.\<close>

fun TypeOf :: "go_value \<Rightarrow> rtype option" where
  "TypeOf VNil = None"
| "TypeOf (VBool _) = Some (basic ''bool'' KBool)"
| "TypeOf (VFloat64 _) = Some (basic ''float64'' KFloat64)"
| "TypeOf (VString _) = Some (basic ''string'' KString)"
| "TypeOf (VSlice _) = Some (RType ''[]interface {}'' KSlice (Some empty_interface))"
| "TypeOf (VMap _) = Some (RType ''map[string]interface {}'' KMap (Some empty_interface))"
| "TypeOf (VInteger k _) = Some (basic (kind_name k) k)"
| "TypeOf (VFloat32 _) = Some (basic ''float32'' KFloat32)"
| "TypeOf (VObject t _) = Some t"

text \<open>
  \<^verbatim>\<open>reflect.ValueOf\<close>: a \<^verbatim>\<open>reflect.Value\<close> is \<open>None\<close> when it is the zero
  Value, which is what \<^verbatim>\<open>ValueOf(nil)\<close> and a fresh slot of
  \<^verbatim>\<open>make([]reflect.Value, n)\<close> are.
\<close>

type_synonym reflect_Value = "go_value option"

definition ValueOf :: "go_value \<Rightarrow> reflect_Value" where
  "ValueOf v = (if v = VNil then None else Some v)"

text \<open>\<^verbatim>\<open>(*rtype).Elem\<close> panics unless the kind is Array, Chan, Map, Pointer or Slice.\<close>

definition has_elem :: "kind \<Rightarrow> bool" where
  "has_elem k = (k = KArray \<or> k = KChan \<or> k = KMap \<or> k = KPointer \<or> k = KSlice)"

definition Elem :: "rtype \<Rightarrow> rtype outcome" where
  "Elem t =
     (if has_elem (type_kind t)
      then (case type_elem t of Some e \<Rightarrow> Ok e | None \<Rightarrow> Panic (ElemOfInvalidType (type_kind t)))
      else Panic (ElemOfInvalidType (type_kind t)))"

subsection \<open>Conversions of a float64\<close>

text \<open>
  A conversion to an integer type discards the fraction (truncation towards zero). When
  the truncated value does not fit the target type, or the float is not finite, the
  result is implementation-dependent: \<open>cast_overflow\<close>.
\<close>

definition f64_trunc :: "float64 \<Rightarrow> int option" where
  "f64_trunc f =
     (case f of
        F64 neg m e \<Rightarrow>
          (let a = (if 0 \<le> e then int m * 2 ^ nat e else int m div 2 ^ nat (- e))
           in Some (if neg then - a else a))
      | F64_Inf _ \<Rightarrow> None
      | F64_NaN \<Rightarrow> None)"

fun int_range :: "goenv \<Rightarrow> kind \<Rightarrow> (int \<times> int) option" where
  "int_range env KInt = Some (- (2 ^ (int_bits env - 1)), 2 ^ (int_bits env - 1) - 1)"
| "int_range env KInt8 = Some (- (2 ^ 7), 2 ^ 7 - 1)"
| "int_range env KInt16 = Some (- (2 ^ 15), 2 ^ 15 - 1)"
| "int_range env KInt32 = Some (- (2 ^ 31), 2 ^ 31 - 1)"
| "int_range env KInt64 = Some (- (2 ^ 63), 2 ^ 63 - 1)"
| "int_range env KUint = Some (0, 2 ^ int_bits env - 1)"
| "int_range env KUint8 = Some (0, 2 ^ 8 - 1)"
| "int_range env KUint16 = Some (0, 2 ^ 16 - 1)"
| "int_range env KUint32 = Some (0, 2 ^ 32 - 1)"
| "int_range env KUint64 = Some (0, 2 ^ 64 - 1)"
| "int_range env _ = None"

definition float_to_int :: "goenv \<Rightarrow> kind \<Rightarrow> float64 \<Rightarrow> int" where
  "float_to_int env k f =
     (case (f64_trunc f, int_range env k) of
        (Some t, Some (lo, hi)) \<Rightarrow> if lo \<le> t \<and> t \<le> hi then t else cast_overflow env k f
      | _ \<Rightarrow> cast_overflow env k f)"

subsection \<open>The default format\<close>

text \<open>
  \<^verbatim>\<open>fmt.Sprintf("%v", value)\<close>. A string prints as itself, a bool as
  \<^verbatim>\<open>true\<close>/\<^verbatim>\<open>false\<close>, nil as \<^verbatim>\<open><nil>\<close>. A float64 prints in the shortest
  \<^verbatim>\<open>%g\<close> form; for a whole number below \<open>10^6\<close> in magnitude that is its decimal
  digits, with the sign of a negative value (also of negative zero). Every other float
  and every other value is left to \<open>fmt_g\<close> and \<open>fmt_other\<close>.
\<close>

definition digit_char :: "nat \<Rightarrow> char" where
  "digit_char d = ''0123456789'' ! d"

function decimal :: "nat \<Rightarrow> string" where
  "decimal n = (if n < 10 then [digit_char n] else decimal (n div 10) @ [digit_char (n mod 10)])"
  by pat_completeness auto
termination
  by (relation "measure id") auto

definition small_whole :: "float64 \<Rightarrow> (bool \<times> nat) option" where
  "small_whole f =
     (case f of
        F64 neg m e \<Rightarrow>
          if 0 \<le> e then (if m * 2 ^ nat e < 10 ^ 6 then Some (neg, m * 2 ^ nat e) else None)
          else if m mod 2 ^ nat (- e) = 0 \<and> m div 2 ^ nat (- e) < 10 ^ 6
               then Some (neg, m div 2 ^ nat (- e)) else None
      | F64_Inf _ \<Rightarrow> None
      | F64_NaN \<Rightarrow> None)"

definition format_float64 :: "goenv \<Rightarrow> float64 \<Rightarrow> string" where
  "format_float64 env f =
     (case small_whole f of
        Some (neg, n) \<Rightarrow> (if neg then ''-'' else '''') @ decimal n
      | None \<Rightarrow> fmt_g env f)"

definition Sprintf_v :: "goenv \<Rightarrow> go_value \<Rightarrow> string" where
  "Sprintf_v env v =
     (case v of
        VNil \<Rightarrow> ''<nil>''
      | VBool b \<Rightarrow> (if b then ''true'' else ''false'')
      | VFloat64 f \<Rightarrow> format_float64 env f
      | VString s \<Rightarrow> s
      | _ \<Rightarrow> fmt_other env v)"

section \<open>gateway.go: convert\<close>

text \<open>
  \<open>convert_switch\<close> is the body of \<^verbatim>\<open>convert\<close>: the \<^verbatim>\<open>switch\<close> on
  \<^verbatim>\<open>target.Kind()\<close> and the final \<^verbatim>\<open>fmt.Errorf\<close>. The type assertion
  \<^verbatim>\<open>value.(float64)\<close> in it panics on any other dynamic type.
\<close>

definition assert_float64 :: "go_value \<Rightarrow> float64 outcome" where
  "assert_float64 v =
     (case v of VFloat64 f \<Rightarrow> Ok f | _ \<Rightarrow> Panic (InterfaceConversion ''float64'' (TypeOf v)))"

definition to_integer :: "goenv \<Rightarrow> kind \<Rightarrow> go_value \<Rightarrow> go_value outcome" where
  "to_integer env k v =
     (case assert_float64 v of
        Ok f \<Rightarrow> Ok (VInteger k (float_to_int env k f))
      | Err e \<Rightarrow> Err e
      | Panic r \<Rightarrow> Panic r)"

definition convert_switch :: "goenv \<Rightarrow> int \<Rightarrow> rtype \<Rightarrow> go_value \<Rightarrow> go_value outcome" where
  "convert_switch env param target v =
     (case type_kind target of
        KInt \<Rightarrow> to_integer env KInt v
      | KInt8 \<Rightarrow> to_integer env KInt8 v
      | KInt16 \<Rightarrow> to_integer env KInt16 v
      | KInt32 \<Rightarrow> to_integer env KInt32 v
      | KInt64 \<Rightarrow> to_integer env KInt64 v
      | KUint \<Rightarrow> to_integer env KUint v
      | KUint8 \<Rightarrow> to_integer env KUint8 v
      | KUint16 \<Rightarrow> to_integer env KUint16 v
      | KUint32 \<Rightarrow> to_integer env KUint32 v
      | KUint64 \<Rightarrow> to_integer env KUint64 v
      | KFloat32 \<Rightarrow>
          (case assert_float64 v of
             Ok f \<Rightarrow> Ok (VFloat32 (round32 env f)) | Err e \<Rightarrow> Err e | Panic r \<Rightarrow> Panic r)
      | KFloat64 \<Rightarrow>
          (case assert_float64 v of
             Ok f \<Rightarrow> Ok (VFloat64 f) | Err e \<Rightarrow> Err e | Panic r \<Rightarrow> Panic r)
      | KString \<Rightarrow> Ok (VString (Sprintf_v env v))
      | _ \<Rightarrow> Err (ConvertError target (TypeOf v)))"

text \<open>
  \<^verbatim>\<open>convert\<close> runs that body under its deferred function: a panic \<open>r\<close> is
  recovered and returned as the error \<^verbatim>\<open>r.(error)\<close>, with a nil result.
\<close>

fun recovered :: "panic \<Rightarrow> error" where
  "recovered (InterfaceConversion expected got) = TypeAssertionError expected got"
| "recovered r = RuntimeError r"

definition convert :: "goenv \<Rightarrow> int \<Rightarrow> rtype \<Rightarrow> go_value \<Rightarrow> go_value outcome" where
  "convert env param target v =
     (case convert_switch env param target v of
        Ok result \<Rightarrow> Ok result
      | Err err \<Rightarrow> Err err
      | Panic r \<Rightarrow> Err (recovered r))"

section \<open>thing.go: the capability model\<close>

definition PropertyTypeInt :: int where "PropertyTypeInt = 0"
definition PropertyTypeString :: int where "PropertyTypeString = 1"
definition PropertyTypeBool :: int where "PropertyTypeBool = 2"
definition PropertyTypeColor :: int where "PropertyTypeColor = 3"

record Property =
  p_Name :: string
  p_Type :: int
  p_Value :: go_value
  p_Range :: "go_value list"
  p_Unit :: string
  p_Description :: string

record Action =
  a_Name :: string
  a_Parameters :: "Property list"

record Thing =
  t_Id :: string
  t_Name :: string
  t_Kind :: string
  t_Actions :: "Action list"
  t_Properties :: "Property list"

definition AddParameter :: "Action \<Rightarrow> Property \<Rightarrow> Action" where
  "AddParameter a p = a\<lparr>a_Parameters := a_Parameters a @ [p]\<rparr>"

definition AddAction :: "Thing \<Rightarrow> Action \<Rightarrow> Thing" where
  "AddAction t a = t\<lparr>t_Actions := t_Actions t @ [a]\<rparr>"

definition AddProperty :: "Thing \<Rightarrow> Property \<Rightarrow> Thing" where
  "AddProperty t p = t\<lparr>t_Properties := t_Properties t @ [p]\<rparr>"

fun find_action :: "Action list \<Rightarrow> string \<Rightarrow> Action option" where
  "find_action [] name = None"
| "find_action (a # as) name = (if a_Name a = name then Some a else find_action as name)"

definition FindAction :: "Thing \<Rightarrow> string \<Rightarrow> Action option" where
  "FindAction t name = find_action (t_Actions t) name"

text \<open>
  An \<^verbatim>\<open>Instance\<close> is user code behind a pointer. The model keeps what the gateway
  reads by reflection: the dynamic type, the exported methods with the types of their
  parameters (the receiver not counted) and whether the last one is variadic, and \<^verbatim>\<open>Init\<close> as the change it makes to the
  Thing it is given. \<open>i_ref\<close> tells instances apart. What a method does when invoked is
  outside the repository: an invocation is recorded in the trace \<open>calls\<close> of the state.
\<close>

record Method =
  m_Name :: string
  m_params :: "rtype list"
  m_IsVariadic :: bool

record Instance =
  i_type :: rtype
  i_ref :: nat
  i_methods :: "Method list"
  i_Init :: "Thing \<Rightarrow> Thing"

fun find_method :: "Method list \<Rightarrow> string \<Rightarrow> Method option" where
  "find_method [] name = None"
| "find_method (m # ms) name = (if m_Name m = name then Some m else find_method ms name)"

text \<open>\<^verbatim>\<open>reflect.TypeOf(instance).MethodByName(name)\<close>: the exported method of exactly that name.\<close>

definition MethodByName :: "Instance \<Rightarrow> string \<Rightarrow> Method option" where
  "MethodByName inst name = find_method (i_methods inst) name"

text \<open>
  \<^verbatim>\<open>method.Type.NumIn()\<close> and \<^verbatim>\<open>method.Type.In(i)\<close>: input 0 is the receiver.
  \<^verbatim>\<open>CallAction\<close> asks for \<open>In i\<close> only with \<open>i < NumIn\<close>.
\<close>

definition In_types :: "Instance \<Rightarrow> Method \<Rightarrow> rtype list" where
  "In_types inst m = i_type inst # m_params m"

definition NumIn :: "Method \<Rightarrow> nat" where
  "NumIn m = length (m_params m) + 1"

definition In :: "Instance \<Rightarrow> Method \<Rightarrow> nat \<Rightarrow> rtype" where
  "In inst m i = In_types inst m ! i"

section \<open>mqtt_connector.go and gateway.go: the state\<close>

datatype log_arg = LStr string | LVal go_value | LInt int | LErr error

datatype call = InitCall nat Thing | MethodCall nat string "go_value list"

record mqtt_Client =
  IsConnected :: bool
  published :: "(string \<times> nat \<times> bool \<times> string) list"

record MqttConnector =
  c_DataTopic :: string
  c_ActionTopic :: string
  c_connectorServer :: string
  c_client :: "mqtt_Client option"

record wrapper =
  w_thing :: Thing
  w_instance :: Instance

text \<open>
  \<open>Logger\<close> is the sequence of \<^verbatim>\<open>Printf\<close> calls made on the gateway's logger,
  each with its format and arguments. \<open>calls\<close> is not a field of the Go struct: it
  records every invocation of Instance code (\<^verbatim>\<open>Init\<close> and dispatched methods).
\<close>

record Gateway =
  g_Name :: string
  g_Kind :: string
  g_Host :: string
  g_Port :: int
  g_Data :: string
  g_Action :: string
  g_Account :: string
  g_Mode :: int
  g_Things :: "string \<rightharpoonup> wrapper"
  Logger :: "(string \<times> log_arg list) list"
  connector :: "MqttConnector option"
  deviotServer :: string
  registered :: "32 word"
  calls :: "call list"

definition GatewayModeHttpPull :: int where "GatewayModeHttpPull = 0"
definition GatewayModeHttpPush :: int where "GatewayModeHttpPush = 1"
definition GatewayModeMqtt :: int where "GatewayModeMqtt = 2"

definition defaultPort :: int where "defaultPort = 1883"

definition Printf :: "string \<Rightarrow> log_arg list \<Rightarrow> Gateway \<Rightarrow> Gateway" where
  "Printf format args g = g\<lparr>Logger := Logger g @ [(format, args)]\<rparr>"

subsection \<open>The string functions used\<close>

text \<open>
  \<^verbatim>\<open>strings.Replace(s, old, new, -1)\<close> for a non-empty \<open>old\<close>, which is what both
  call sites pass; \<^verbatim>\<open>strings.Split(s, sep)\<close> for a one-character separator;
  \<^verbatim>\<open>strings.ToLower\<close>, which on an all-ASCII string lowers the letters A to Z and
  on any other string is left to \<open>unicode_ToLower\<close>.
\<close>

function Replace :: "string \<Rightarrow> string \<Rightarrow> string \<Rightarrow> string" where
  "Replace s old new =
     (if s = [] then []
      else if old \<noteq> [] \<and> take (length old) s = old
           then new @ Replace (drop (length old) s) old new
           else hd s # Replace (tl s) old new)"
  by pat_completeness auto
termination
  by (relation "measure (\<lambda>(s, old, new). length s)") (auto simp: Suc_le_eq)

fun Split :: "string \<Rightarrow> char \<Rightarrow> string list" where
  "Split [] sep = [[]]"
| "Split (c # cs) sep =
     (if c = sep then [] # Split cs sep
      else (case Split cs sep of p # ps \<Rightarrow> (c # p) # ps | [] \<Rightarrow> [[c]]))"

definition lower_char :: "char \<Rightarrow> char" where
  "lower_char c =
     (case map_of (zip ''ABCDEFGHIJKLMNOPQRSTUVWXYZ'' ''abcdefghijklmnopqrstuvwxyz'') c of
        Some l \<Rightarrow> l
      | None \<Rightarrow> c)"

definition ToLower :: "goenv \<Rightarrow> string \<Rightarrow> string" where
  "ToLower env s =
     (if list_all (\<lambda>c. (of_char c :: nat) < 128) s then map lower_char s
      else unicode_ToLower env s)"

subsection \<open>NewMqttConnector and NewGateway\<close>

definition NewMqttConnector :: "goenv \<Rightarrow> Gateway \<Rightarrow> string \<Rightarrow> (MqttConnector \<times> Gateway) outcome" where
  "NewMqttConnector env gateway connectorServer =
     (case url_Parse_Host env connectorServer of
        Inl err \<Rightarrow> Err err
      | Inr uHost \<Rightarrow>
          (let (host, portStr) = SplitHostPort env uHost;
               parsed = (if portStr \<noteq> ''''
                         then (case Atoi env portStr of Inl err \<Rightarrow> Inl err | Inr port \<Rightarrow> Inr (host, port))
                         else Inr (uHost, defaultPort))
           in case parsed of
                Inl err \<Rightarrow> Err err
              | Inr (host, port) \<Rightarrow>
                  (let ns = Replace (g_Account gateway) ''@'' '''';
                       ns = (if ns = '''' then ''_'' else ns);
                       dataTopic = ''/deviot/'' @ ns @ ''/'' @ g_Name gateway @ ''/data'';
                       actionTopic = ''/deviot/'' @ ns @ ''/'' @ g_Name gateway @ ''/action''
                   in Ok (\<lparr>c_DataTopic = dataTopic, c_ActionTopic = actionTopic,
                            c_connectorServer = connectorServer, c_client = None\<rparr>,
                          gateway\<lparr>g_Host := host, g_Port := port, g_Mode := GatewayModeMqtt,
                                  g_Data := dataTopic, g_Action := actionTopic\<rparr>))))"

definition assert_string :: "go_value \<Rightarrow> string outcome" where
  "assert_string v =
     (case v of VString s \<Rightarrow> Ok s | _ \<Rightarrow> Panic (InterfaceConversion ''string'' (TypeOf v)))"

definition NewGateway ::
  "goenv \<Rightarrow> string \<Rightarrow> string \<Rightarrow> string \<Rightarrow> string \<Rightarrow> (string \<rightharpoonup> go_value) option \<Rightarrow> Gateway outcome" where
  "NewGateway env name deviotServer' connectorServer account opts =
     (let name = Replace name ''-'' ''_'';
          gateway = \<lparr>g_Name = name, g_Kind = ''device'', g_Host = '''', g_Port = 0,
                     g_Data = '''', g_Action = '''', g_Account = account,
                     g_Mode = GatewayModeMqtt, g_Things = Map.empty, Logger = [],
                     connector = None, deviotServer = deviotServer', registered = 0,
                     calls = []\<rparr>;
          withKind = (case opts of
                        None \<Rightarrow> Ok gateway
                      | Some m \<Rightarrow>
                          (case m ''kind'' of
                             None \<Rightarrow> Ok gateway
                           | Some kind \<Rightarrow>
                               (case assert_string kind of
                                  Ok k \<Rightarrow> Ok (gateway\<lparr>g_Kind := k\<rparr>)
                                | Err e \<Rightarrow> Err e
                                | Panic p \<Rightarrow> Panic p)))
      in case withKind of
           Panic p \<Rightarrow> Panic p
         | Err e \<Rightarrow> Err e
         | Ok gateway \<Rightarrow>
             (case NewMqttConnector env gateway connectorServer of
                Panic p \<Rightarrow> Panic p
              | Err err \<Rightarrow> Err err
              | Ok (c, gateway) \<Rightarrow> Ok (gateway\<lparr>connector := Some c\<rparr>)))"

subsection \<open>The registration heartbeat of Start\<close>

definition IsRegistered :: "Gateway \<Rightarrow> bool" where
  "IsRegistered g = (registered g = 1)"

definition setRegistered :: "bool \<Rightarrow> Gateway \<Rightarrow> Gateway" where
  "setRegistered b g = (if b then g\<lparr>registered := 1\<rparr> else g\<lparr>registered := 0\<rparr>)"

text \<open>
  The document the goroutine of \<^verbatim>\<open>Start\<close> marshals and posts: the identity fields,
  read from the gateway, and the Thing of every registry entry (a Go map is iterated in
  no fixed order, so the sensors are a set).
\<close>

record registration_model =
  model_name :: string
  model_kind :: string
  model_mode :: int
  model_owner :: string
  model_host :: string
  model_port :: int
  model_data :: string
  model_action :: string
  model_sensors :: "Thing set"

definition build_model :: "Gateway \<Rightarrow> registration_model" where
  "build_model g =
     \<lparr>model_name = g_Name g, model_kind = g_Kind g, model_mode = g_Mode g,
      model_owner = g_Account g, model_host = g_Host g, model_port = g_Port g,
      model_data = g_Data g, model_action = g_Action g,
      model_sensors = w_thing ` ran (g_Things g)\<rparr>"

text \<open>
  One pass of the \<^verbatim>\<open>for\<close> loop. \<^verbatim>\<open>http.NewRequest\<close> returns a nil request when it
  cannot parse the URL, and the next statement, \<^verbatim>\<open>req.Header.Set\<close>, then dereferences
  nil. Otherwise the pass is decided by what \<^verbatim>\<open>client.Do\<close> returns: an error, or a
  response with its status code and status text.
\<close>

datatype do_result = DoError error | DoResponse int string

definition heartbeat :: "goenv \<Rightarrow> bool \<Rightarrow> do_result \<Rightarrow> Gateway \<Rightarrow> Gateway outcome" where
  "heartbeat env first r g =
     (if \<not> NewRequest_ok env (deviotServer g @ ''/api/v1/gateways'') then Panic NilPointerDereference
      else
        (case r of
           DoError err \<Rightarrow>
             Ok (setRegistered False
                   (if first \<or> IsRegistered g
                    then Printf ''Failed to register gateway service %s - %v'' [LStr (g_Name g), LErr err] g
                    else g))
         | DoResponse StatusCode Status \<Rightarrow>
             (if 200 \<le> StatusCode \<and> StatusCode < 400
              then Ok (setRegistered True
                         (if first \<or> \<not> IsRegistered g
                          then Printf ''Registered gateway service to %s'' [LStr (deviotServer g)] g
                          else g))
              else Ok (setRegistered False
                         (if first \<or> IsRegistered g
                          then Printf ''Failed to register gateway service %s - %v''
                                 [LStr (g_Name g), LStr Status] g
                          else g)))))"

text \<open>
  The loop never ends by itself. It is run here over the results of the first
  \<^verbatim>\<open>client.Do\<close> calls, one pass each, with \<^verbatim>\<open>first\<close> cleared after a pass;
  \<open>iterations\<close> lists, for every completed pass, the value of \<^verbatim>\<open>first\<close> and the
  state before and after it.
\<close>

fun supervisor :: "goenv \<Rightarrow> do_result list \<Rightarrow> bool \<Rightarrow> Gateway \<Rightarrow> Gateway outcome" where
  "supervisor env [] first g = Ok g"
| "supervisor env (r # rs) first g =
     (case heartbeat env first r g of
        Ok g' \<Rightarrow> supervisor env rs False g'
      | Err e \<Rightarrow> Err e
      | Panic p \<Rightarrow> Panic p)"

fun iterations :: "goenv \<Rightarrow> do_result list \<Rightarrow> bool \<Rightarrow> Gateway \<Rightarrow> (bool \<times> Gateway \<times> Gateway) list" where
  "iterations env [] first g = []"
| "iterations env (r # rs) first g =
     (case heartbeat env first r g of
        Ok g' \<Rightarrow> (first, g, g') # iterations env rs False g'
      | Err e \<Rightarrow> []
      | Panic p \<Rightarrow> [])"

subsection \<open>Register and Deregister\<close>

definition Register ::
  "goenv \<Rightarrow> Gateway \<Rightarrow> string \<Rightarrow> string \<Rightarrow> Instance option \<Rightarrow> Gateway outcome" where
  "Register env g tid name inst =
     (case g_Things g tid of
        Some _ \<Rightarrow> Ok (Printf ''Thing %s has already been registered'' [LStr tid] g)
      | None \<Rightarrow>
          (case inst of
             None \<Rightarrow> Panic NilPointerDereference
           | Some i \<Rightarrow>
               (case Elem (i_type i) of
                  Panic p \<Rightarrow> Panic p
                | Err e \<Rightarrow> Err e
                | Ok et \<Rightarrow>
                    (let kind = ToLower env (type_name et);
                         parts = Split kind CHR ''.'';
                         kind = last parts;
                         t = \<lparr>t_Id = tid, t_Name = name, t_Kind = kind,
                              t_Actions = [], t_Properties = []\<rparr>;
                         t' = i_Init i t;
                         g' = g\<lparr>g_Things := (g_Things g)(tid \<mapsto> \<lparr>w_thing = t', w_instance = i\<rparr>),
                                calls := calls g @ [InitCall (i_ref i) t]\<rparr>
                     in Ok (Printf ''Thing %s.%s(%v) registered''
                              [LStr (t_Id t'), LStr (t_Name t'), LStr (t_Kind t')] g')))))"

definition Deregister :: "Gateway \<Rightarrow> string \<Rightarrow> Gateway" where
  "Deregister g tid =
     (case g_Things g tid of
        Some w \<Rightarrow>
          Printf ''Thing %s.%s(%s) deregistered''
            [LStr tid, LStr (t_Name (w_thing w)), LStr (t_Kind (w_thing w))]
            (g\<lparr>g_Things := (g_Things g)(tid := None)\<rparr>)
      | None \<Rightarrow> Printf ''Thing %s not registered yet'' [LStr tid] g)"

subsection \<open>Publish\<close>

text \<open>
  \<open>tokenError\<close> is what \<^verbatim>\<open>token.Error()\<close> gives after the wait, when a message is
  handed to the client.
\<close>

definition Publish ::
  "goenv \<Rightarrow> error option \<Rightarrow> MqttConnector \<Rightarrow> (string \<rightharpoonup> go_value) \<Rightarrow> error option \<times> MqttConnector" where
  "Publish env tokenError c data =
     (case c_client c of
        Some client \<Rightarrow>
          if IsConnected client
          then (let jsonData = json_Marshal env data
                in (tokenError,
                    c\<lparr>c_client := Some (client\<lparr>published :=
                         published client @ [(c_DataTopic c, 0, False, jsonData)]\<rparr>)\<rparr>))
          else (None, c)
      | None \<Rightarrow> (None, c))"

text \<open>\<^verbatim>\<open>SendData\<close> calls \<^verbatim>\<open>Publish\<close> on the gateway's connector.\<close>

definition SendData ::
  "goenv \<Rightarrow> error option \<Rightarrow> Gateway \<Rightarrow> (string \<rightharpoonup> go_value) \<Rightarrow> (error option \<times> Gateway) outcome" where
  "SendData env tokenError g data =
     (case connector g of
        None \<Rightarrow> Panic NilPointerDereference
      | Some c \<Rightarrow>
          (let (err, c') = Publish env tokenError c data
           in Ok (err, g\<lparr>connector := Some c'\<rparr>)))"

subsection \<open>CallAction\<close>

text \<open>
  \<^verbatim>\<open>v, found := data[key]\<close>: a missing key reads as nil and \<^verbatim>\<open>false\<close>.
\<close>

definition index :: "(string \<rightharpoonup> go_value) \<Rightarrow> string \<Rightarrow> go_value \<times> bool" where
  "index data key = (case data key of Some v \<Rightarrow> (v, True) | None \<Rightarrow> (VNil, False))"

text \<open>
  \<^verbatim>\<open>method.Func.Call(args)\<close>. It panics on a wrong number of arguments; then on any
  argument that is the zero Value; then on the first argument whose type is not
  assignable to its parameter's type. For a variadic method the arguments from the last
  parameter on may be any number and are checked against the element type of that
  parameter. Otherwise the method runs.
\<close>

definition AssignableTo :: "goenv \<Rightarrow> rtype \<Rightarrow> rtype \<Rightarrow> bool" where
  "AssignableTo env vt t = (vt = t \<or> assignable_to env vt t)"

fun check_args :: "goenv \<Rightarrow> reflect_Value list \<Rightarrow> rtype list \<Rightarrow> panic option" where
  "check_args env (None # as) (t # ts) = Some CallUsingZeroValue"
| "check_args env (Some v # as) (t # ts) =
     (case TypeOf v of
        None \<Rightarrow> Some CallUsingZeroValue
      | Some vt \<Rightarrow> if AssignableTo env vt t then check_args env as ts
                   else Some (CallUsingWrongType vt t))"
| "check_args env as ts = None"

definition Call :: "goenv \<Rightarrow> Instance \<Rightarrow> Method \<Rightarrow> reflect_Value list \<Rightarrow> Gateway \<Rightarrow> Gateway outcome" where
  "Call env inst m args g =
     (let ts = In_types inst m;
          n = (if m_IsVariadic m then NumIn m - 1 else NumIn m);
          invoked = Ok (g\<lparr>calls := calls g @
                          [MethodCall (i_ref inst) (m_Name m) (map the (tl args))]\<rparr>)
      in if (if m_IsVariadic m then length args < n else length args \<noteq> n)
         then Panic (CallArgumentCount (length args) (NumIn m))
         else if None \<in> set args then Panic CallUsingZeroValue
         else
           (case check_args env (take n args) (take n ts) of
              Some p \<Rightarrow> Panic p
            | None \<Rightarrow>
                if m_IsVariadic m
                then (case type_elem (last ts) of
                        None \<Rightarrow> Panic (ElemOfInvalidType (type_kind (last ts)))
                      | Some et \<Rightarrow>
                          (case check_args env (drop n args) (replicate (length args - n) et) of
                             Some p \<Rightarrow> Panic p
                           | None \<Rightarrow> invoked))
                else invoked))"

text \<open>
  The binding loop \<^verbatim>\<open>for i := 1; i < len(args); i++\<close>. Reading
  \<^verbatim>\<open>actionDef.Parameters[i-1]\<close> beyond the slice is a run-time panic.
\<close>

function bind_args ::
  "goenv \<Rightarrow> (string \<rightharpoonup> go_value) \<Rightarrow> Action \<Rightarrow> Instance \<Rightarrow> Method \<Rightarrow> nat \<Rightarrow>
   reflect_Value list \<Rightarrow> reflect_Value list outcome" where
  "bind_args env data actionDef inst m i args =
     (if i < length args
      then (if i - 1 < length (a_Parameters actionDef)
            then (let param = a_Parameters actionDef ! (i - 1)
                  in case index data (p_Name param) of
                       (v, False) \<Rightarrow>
                         bind_args env data actionDef inst m (i + 1) (args[i := ValueOf (p_Value param)])
                     | (v, True) \<Rightarrow>
                         (case convert env (p_Type param) (In inst m i) v of
                            Err err \<Rightarrow> Err err
                          | Panic p \<Rightarrow> Panic p
                          | Ok v' \<Rightarrow>
                              bind_args env data actionDef inst m (i + 1) (args[i := ValueOf v'])))
            else Panic (IndexOutOfRange (i - 1) (length (a_Parameters actionDef))))
      else Ok args)"
  by pat_completeness auto
termination
  by (relation "measure (\<lambda>(env, data, actionDef, inst, m, i, args). length args - i)") auto

definition CallAction :: "goenv \<Rightarrow> Gateway \<Rightarrow> (string \<rightharpoonup> go_value) \<Rightarrow> Gateway outcome" where
  "CallAction env g data =
     (let (ident, found) = index data ''id'';
          (ident, found) = (if \<not> found then index data ''name'' else (ident, found))
      in if \<not> found
         then Ok (Printf ''Illegal message, thing id/name(%v) not available'' [LVal ident] g)
         else
           (case assert_string ident of
              Panic p \<Rightarrow> Panic p
            | Err e \<Rightarrow> Err e
            | Ok tid \<Rightarrow>
           (case g_Things g tid of
              None \<Rightarrow> Ok (Printf ''Illegal message, thing id/name(%v) not available'' [LVal ident] g)
            | Some wrapper \<Rightarrow>
           (case index data ''action'' of
              (action, False) \<Rightarrow>
                Ok (Printf ''Illegal message, thing action(%v) not available'' [LVal action] g)
            | (action, True) \<Rightarrow>
           (case assert_string action of
              Panic p \<Rightarrow> Panic p
            | Err e \<Rightarrow> Err e
            | Ok actionName \<Rightarrow>
           (case FindAction (w_thing wrapper) actionName of
              None \<Rightarrow> Ok (Printf ''Illegal message, thing action(%v) not available'' [LVal action] g)
            | Some actionDef \<Rightarrow>
           (case MethodByName (w_instance wrapper) actionName of
              None \<Rightarrow> Ok (Printf ''Illegal message, thing method(%v) not available'' [LVal action] g)
            | Some m \<Rightarrow>
                if NumIn m \<noteq> length (a_Parameters actionDef) + 1
                   \<and> NumIn m \<noteq> length (a_Parameters actionDef) + 2
                then Ok (Printf ''Illegal message, thing method(%v) arguments(%d:%d) does not match''
                           [LVal action, LInt (int (NumIn m)),
                            LInt (int (length (a_Parameters actionDef)))] g)
                else
                  (let args = replicate (NumIn m) None;
                       args = args[0 := ValueOf (VObject (i_type (w_instance wrapper))
                                                        (i_ref (w_instance wrapper)))]
                   in case bind_args env data actionDef (w_instance wrapper) m 1 args of
                        Panic p \<Rightarrow> Panic p
                      | Err err \<Rightarrow> Ok (Printf ''%v'' [LErr err] g)
                      | Ok args \<Rightarrow>
                          (let args = (if NumIn m = length (a_Parameters actionDef) + 2
                                       then (case index data ''payload'' of
                                               (payload, True) \<Rightarrow>
                                                 args[length args - 1 := ValueOf payload]
                                             | (payload, False) \<Rightarrow> args)
                                       else args)
                           in Call env (w_instance wrapper) m args g)))))))))"

section \<open>Concrete inputs\<close>

text \<open>
  An environment for evaluating the functions on concrete inputs: a 64-bit \<^verbatim>\<open>int\<close>,
  every type assignable to the empty interface, and the library answers for the one
  broker address used below. The theorems that follow hold for every environment; the
  evaluations below do not reach the remaining fields.
\<close>

definition sample_env :: goenv where
  "sample_env =
     \<lparr>int_bits = 64, cast_overflow = (\<lambda>k f. 0), round32 = (\<lambda>f. f),
      fmt_g = (\<lambda>f. ''''), fmt_other = (\<lambda>v. ''''),
      assignable_to = (\<lambda>vt t. t = empty_interface),
      unicode_ToLower = (\<lambda>s. s),
      url_Parse_Host = (\<lambda>s. if s = ''tcp://broker:1883'' then Inr ''broker:1883''
                              else Inl (ExternalError ''parse'')),
      SplitHostPort = (\<lambda>s. if s = ''broker:1883'' then (''broker'', ''1883'') else ('''', '''')),
      Atoi = (\<lambda>s. if s = ''1883'' then Inr 1883 else Inl (ExternalError ''Atoi'')),
      NewRequest_ok = (\<lambda>u. True),
      json_Marshal = (\<lambda>d. '''')\<rparr>"

text \<open>
  The gateway \<^verbatim>\<open>NewGateway("gw", "http://deviot", "tcp://broker:1883", "", nil)\<close>
  returns, before anything is registered.
\<close>

definition sample_gateway :: Gateway where
  "sample_gateway =
     \<lparr>g_Name = ''gw'', g_Kind = ''device'', g_Host = ''broker'', g_Port = 1883,
      g_Data = ''/deviot/_/gw/data'', g_Action = ''/deviot/_/gw/action'',
      g_Account = '''', g_Mode = 2, g_Things = Map.empty, Logger = [],
      connector = Some \<lparr>c_DataTopic = ''/deviot/_/gw/data'',
                         c_ActionTopic = ''/deviot/_/gw/action'',
                         c_connectorServer = ''tcp://broker:1883'', c_client = None\<rparr>,
      deviotServer = ''http://deviot'', registered = 0, calls = []\<rparr>"

text \<open>
  A gateway whose management server address has a space in the host name,
  \<^verbatim>\<open>NewGateway("gw", "http://a b", "tcp://broker:1883", "", nil)\<close>, and an environment
  in which, as in Go, \<^verbatim>\<open>http.NewRequest\<close> cannot parse the registration URL made
  from it.
\<close>

definition bad_url_gateway :: Gateway where
  "bad_url_gateway = sample_gateway\<lparr>deviotServer := ''http://a b''\<rparr>"

definition bad_url_env :: goenv where
  "bad_url_env = sample_env\<lparr>NewRequest_ok := (\<lambda>u. u \<noteq> ''http://a b/api/v1/gateways'')\<rparr>"

abbreviation bool_type :: rtype where "bool_type \<equiv> basic ''bool'' KBool"
abbreviation int32_type :: rtype where "int32_type \<equiv> basic ''int32'' KInt32"
abbreviation string_type :: rtype where "string_type \<equiv> basic ''string'' KString"
abbreviation float64_type :: rtype where "float64_type \<equiv> basic ''float64'' KFloat64"

text \<open>The float64 values 7.0 and 5.0.\<close>

abbreviation seven :: float64 where "seven \<equiv> F64 False 7 0"
abbreviation five :: float64 where "five \<equiv> F64 False 5 0"

text \<open>
  A lamp: \<^verbatim>\<open>type Lamp struct{...}\<close> with \<^verbatim>\<open>func (l *Lamp) SetOn(on bool)\<close>, whose
  \<^verbatim>\<open>Init\<close> declares one action, of the name given, with the parameter
  \<^verbatim>\<open>{Name: "on", Type: PropertyTypeBool, Value: false}\<close>.
\<close>

definition on_param :: Property where
  "on_param = \<lparr>p_Name = ''on'', p_Type = PropertyTypeBool, p_Value = VBool False,
               p_Range = [], p_Unit = '''', p_Description = ''''\<rparr>"

definition lamp :: "string \<Rightarrow> Instance" where
  "lamp actionName =
     \<lparr>i_type = RType ''*main.Lamp'' KPointer (Some (basic ''main.Lamp'' KStruct)),
      i_ref = 1,
      i_methods = [\<lparr>m_Name = ''SetOn'', m_params = [bool_type], m_IsVariadic = False\<rparr>],
      i_Init = (\<lambda>t. AddAction t
                  (AddParameter \<lparr>a_Name = actionName, a_Parameters = []\<rparr> on_param))\<rparr>"

definition registered_with :: "Gateway \<Rightarrow> string \<Rightarrow> string \<Rightarrow> Instance \<Rightarrow> Gateway" where
  "registered_with g tid name i =
     (case Register sample_env g tid name (Some i) of Ok g' \<Rightarrow> g' | _ \<Rightarrow> g)"

definition lamp_gateway :: "string \<Rightarrow> Gateway" where
  "lamp_gateway actionName = registered_with sample_gateway ''lamp1'' ''Lamp'' (lamp actionName)"

text \<open>
  A dimmer: \<^verbatim>\<open>func (d *Dimmer) SetLevel(level int32)\<close> and
  \<^verbatim>\<open>func (d *Dimmer) Fade(level int32, payload interface{})\<close>, each declared as an
  action with the one parameter \<^verbatim>\<open>{Name: "level", Type: PropertyTypeInt, Value: int32(0)}\<close>.
\<close>

definition level_param :: Property where
  "level_param = \<lparr>p_Name = ''level'', p_Type = PropertyTypeInt, p_Value = VInteger KInt32 0,
                  p_Range = [], p_Unit = '''', p_Description = ''''\<rparr>"

definition dimmer :: Instance where
  "dimmer =
     \<lparr>i_type = RType ''*main.Dimmer'' KPointer (Some (basic ''main.Dimmer'' KStruct)),
      i_ref = 2,
      i_methods = [\<lparr>m_Name = ''SetLevel'', m_params = [int32_type], m_IsVariadic = False\<rparr>,
                   \<lparr>m_Name = ''Fade'', m_params = [int32_type, empty_interface],
                    m_IsVariadic = False\<rparr>],
      i_Init = (\<lambda>t. AddAction
                  (AddAction t (AddParameter \<lparr>a_Name = ''SetLevel'', a_Parameters = []\<rparr> level_param))
                  (AddParameter \<lparr>a_Name = ''Fade'', a_Parameters = []\<rparr> level_param))\<rparr>"

definition dimmer_gateway :: Gateway where
  "dimmer_gateway = registered_with sample_gateway ''dim1'' ''Dimmer'' dimmer"

text \<open>The dimmer's registry entry, and its action and method "SetLevel".\<close>

definition SetLevel_action :: Action where
  "SetLevel_action = \<lparr>a_Name = ''SetLevel'', a_Parameters = [level_param]\<rparr>"

definition SetLevel_method :: Method where
  "SetLevel_method = \<lparr>m_Name = ''SetLevel'', m_params = [int32_type], m_IsVariadic = False\<rparr>"

definition dimmer_entry :: wrapper where
  "dimmer_entry =
     \<lparr>w_thing = \<lparr>t_Id = ''dim1'', t_Name = ''Dimmer'', t_Kind = ''dimmer'',
                 t_Actions = [\<lparr>a_Name = ''SetLevel'', a_Parameters = [level_param]\<rparr>,
                              \<lparr>a_Name = ''Fade'', a_Parameters = [level_param]\<rparr>],
                 t_Properties = []\<rparr>,
      w_instance = dimmer\<rparr>"

text \<open>
  Two Instances whose dynamic type is not a pointer: a struct value
  (\<^verbatim>\<open>type Probe struct{}\<close> with \<^verbatim>\<open>func (p Probe) Init(t *Thing)\<close>) and a map
  (\<^verbatim>\<open>type Table map[string]main.Cell\<close> with \<^verbatim>\<open>func (m Table) Init(t *Thing)\<close>).
\<close>

definition probe :: Instance where
  "probe = \<lparr>i_type = basic ''main.Probe'' KStruct, i_ref = 3, i_methods = [],
            i_Init = (\<lambda>t. t)\<rparr>"

definition table :: Instance where
  "table = \<lparr>i_type = RType ''main.Table'' KMap (Some (basic ''main.Cell'' KStruct)),
            i_ref = 4, i_methods = [], i_Init = (\<lambda>t. t)\<rparr>"

section \<open>Notions the claims use\<close>

text \<open>
  A dispatch invokes an operation exactly once with given arguments: it returns, and the
  trace of Instance calls has grown by that one call.
\<close>

definition invokes_once ::
  "goenv \<Rightarrow> Gateway \<Rightarrow> (string \<rightharpoonup> go_value) \<Rightarrow> nat \<Rightarrow> string \<Rightarrow> go_value list \<Rightarrow> bool" where
  "invokes_once env g data ref name args =
     (case CallAction env g data of
        Ok g' \<Rightarrow> calls g' = calls g @ [MethodCall ref name args]
      | Err e \<Rightarrow> False
      | Panic p \<Rightarrow> False)"

text \<open>The identifier a dispatch resolves: the value under "id", else the one under "name".\<close>

definition resolved_id :: "(string \<rightharpoonup> go_value) \<Rightarrow> go_value option" where
  "resolved_id data = (case data ''id'' of Some v \<Rightarrow> Some v | None \<Rightarrow> data ''name'')"

definition is_registry_key :: "Gateway \<Rightarrow> go_value \<Rightarrow> bool" where
  "is_registry_key g v = (case v of VString tid \<Rightarrow> g_Things g tid \<noteq> None | _ \<Rightarrow> False)"

text \<open>
  A dispatch resolves its target when the identifier is a string naming a registry entry,
  "action" is a string naming an Action of the entry's Thing, and the entry's Instance has
  a method of that name.
\<close>

definition string_of :: "go_value option \<Rightarrow> string option" where
  "string_of v = (case v of Some (VString s) \<Rightarrow> Some s | _ \<Rightarrow> None)"

definition resolves :: "Gateway \<Rightarrow> (string \<rightharpoonup> go_value) \<Rightarrow> wrapper \<Rightarrow> Action \<Rightarrow> Method \<Rightarrow> bool" where
  "resolves g data w actionDef m =
     (case string_of (resolved_id data) of
        Some tid \<Rightarrow>
          g_Things g tid = Some w \<and>
          (case string_of (data ''action'') of
             Some actionName \<Rightarrow>
               FindAction (w_thing w) actionName = Some actionDef \<and>
               MethodByName (w_instance w) actionName = Some m
           | None \<Rightarrow> False)
      | None \<Rightarrow> False)"

text \<open>
  The operation's parameter count, receiver included, fits the Action: one more than the
  declared parameters, or two more.
\<close>

definition arity_matches :: "Method \<Rightarrow> Action \<Rightarrow> bool" where
  "arity_matches m actionDef =
     (NumIn m = length (a_Parameters actionDef) + 1 \<or> NumIn m = length (a_Parameters actionDef) + 2)"

text \<open>
  The target kinds \<^verbatim>\<open>convert\<close> has a case for, those among them that take a
  number, and the values that are a float64.
\<close>

definition supported_kind :: "kind \<Rightarrow> bool" where
  "supported_kind k =
     (k \<in> {KInt, KInt8, KInt16, KInt32, KInt64, KUint, KUint8, KUint16, KUint32, KUint64,
            KFloat32, KFloat64, KString})"

definition numeric_kind :: "kind \<Rightarrow> bool" where
  "numeric_kind k = (supported_kind k \<and> k \<noteq> KString)"

definition is_float64 :: "go_value \<Rightarrow> bool" where
  "is_float64 v = (case v of VFloat64 f \<Rightarrow> True | _ \<Rightarrow> False)"

text \<open>
  The number a finite float64 stands for, and truncation towards zero, which is what a
  Go conversion of a float to an integer type does with the fraction. The integer kinds
  are the ten signed and unsigned integer kinds \<^verbatim>\<open>convert\<close> has a case for.
\<close>

definition f64_value :: "float64 \<Rightarrow> real option" where
  "f64_value f =
     (case f of
        F64 neg m e \<Rightarrow>
          Some ((if neg then - 1 else 1) * real m *
                (if 0 \<le> e then 2 ^ nat e else 1 / 2 ^ nat (- e)))
      | F64_Inf _ \<Rightarrow> None
      | F64_NaN \<Rightarrow> None)"

definition toward_zero :: "real \<Rightarrow> int" where
  "toward_zero x = (if 0 \<le> x then \<lfloor>x\<rfloor> else \<lceil>x\<rceil>)"

definition integer_kind :: "kind \<Rightarrow> bool" where
  "integer_kind k =
     (k \<in> {KInt, KInt8, KInt16, KInt32, KInt64, KUint, KUint8, KUint16, KUint32, KUint64})"

text \<open>A pass of the heartbeat loop logged: the log has one more line after it.\<close>

definition logged :: "Gateway \<Rightarrow> Gateway \<Rightarrow> bool" where
  "logged g g' = (length (Logger g') = length (Logger g) + 1)"

definition unchanged_log :: "Gateway \<Rightarrow> Gateway \<Rightarrow> bool" where
  "unchanged_log g g' = (Logger g' = Logger g)"

text \<open>
  A heartbeat failed when \<^verbatim>\<open>client.Do\<close> returned an error or a status outside
  200..399. A pass changed the registration state when \<^verbatim>\<open>IsRegistered\<close> differs
  before and after it.
\<close>

definition failed :: "do_result \<Rightarrow> bool" where
  "failed r =
     (case r of
        DoError err \<Rightarrow> True
      | DoResponse StatusCode Status \<Rightarrow> \<not> (200 \<le> StatusCode \<and> StatusCode < 400))"

definition state_changed :: "Gateway \<Rightarrow> Gateway \<Rightarrow> bool" where
  "state_changed g g' = (IsRegistered g' \<noteq> IsRegistered g)"

section \<open>Auxiliary facts\<close>

declare Replace.simps [simp del]
declare decimal.simps [simp del]
declare bind_args.simps [simp del]

lemma convert_not_Panic [simp]:
  "convert env p t v \<noteq> Panic r"
  by (simp add: convert_def split: outcome.splits)

lemma Replace_char:
  "Replace s [c] new = concat (map (\<lambda>x. if x = c then new else [x]) s)"
proof (induction s)
  case Nil
  show ?case by (simp add: Replace.simps)
next
  case (Cons x xs)
  show ?case
    by (subst Replace.simps) (simp add: Cons.IH)
qed

lemma Replace_dash:
  "Replace s ''-'' ''_'' = map (\<lambda>x. if x = CHR ''-'' then CHR ''_'' else x) s"
  by (induction s) (simp_all add: Replace_char)

lemma NewMqttConnector_Ok:
  assumes "NewMqttConnector env gw cs = Ok (c, gw')"
  shows "g_Name gw' = g_Name gw \<and>
         (\<exists>ns. g_Data gw' = ''/deviot/'' @ ns @ ''/'' @ g_Name gw @ ''/data'' \<and>
               g_Action gw' = ''/deviot/'' @ ns @ ''/'' @ g_Name gw @ ''/action'' \<and>
               c_DataTopic c = g_Data gw' \<and> c_ActionTopic c = g_Action gw')"
  using assms
  by (auto simp: NewMqttConnector_def Let_def split: sum.splits prod.splits if_splits)

lemma NewGateway_Ok:
  assumes "NewGateway env name ds cs account opts = Ok g"
  shows "g_Name g = Replace name ''-'' ''_'' \<and>
         (\<exists>ns c. connector g = Some c \<and>
               g_Data g = ''/deviot/'' @ ns @ ''/'' @ g_Name g @ ''/data'' \<and>
               g_Action g = ''/deviot/'' @ ns @ ''/'' @ g_Name g @ ''/action'' \<and>
               c_DataTopic c = g_Data g \<and> c_ActionTopic c = g_Action g)"
  using assms
  by (auto simp: NewGateway_def Let_def assert_string_def
           split: option.splits outcome.splits go_value.splits prod.splits
           dest!: NewMqttConnector_Ok)

lemma NewGateway_sample:
  "NewGateway sample_env ''my-gw'' ''http://deviot'' ''tcp://broker:1883'' ''a@b'' None =
   Ok (sample_gateway\<lparr>g_Name := ''my_gw'', g_Account := ''a@b'',
         g_Data := ''/deviot/ab/my_gw/data'', g_Action := ''/deviot/ab/my_gw/action'',
         connector := Some \<lparr>c_DataTopic = ''/deviot/ab/my_gw/data'',
                            c_ActionTopic = ''/deviot/ab/my_gw/action'',
                            c_connectorServer = ''tcp://broker:1883'', c_client = None\<rparr>\<rparr>)"
  by (simp add: NewGateway_def NewMqttConnector_def sample_env_def sample_gateway_def
        Replace.simps GatewayModeMqtt_def Let_def)

lemma lamp_gateway_eq:
  "lamp_gateway n =
     sample_gateway
       \<lparr>g_Things := [''lamp1'' \<mapsto>
           \<lparr>w_thing = \<lparr>t_Id = ''lamp1'', t_Name = ''Lamp'', t_Kind = ''lamp'',
                       t_Actions = [\<lparr>a_Name = n, a_Parameters = [on_param]\<rparr>],
                       t_Properties = []\<rparr>,
            w_instance = lamp n\<rparr>],
        Logger := [(''Thing %s.%s(%v) registered'', [LStr ''lamp1'', LStr ''Lamp'', LStr ''lamp''])],
        calls := [InitCall 1 \<lparr>t_Id = ''lamp1'', t_Name = ''Lamp'', t_Kind = ''lamp'',
                              t_Actions = [], t_Properties = []\<rparr>]\<rparr>"
  by (simp add: lamp_gateway_def registered_with_def Register_def sample_gateway_def lamp_def
        Elem_def has_elem_def ToLower_def lower_char_def Printf_def AddAction_def
        AddParameter_def Let_def)

lemma heartbeat_edge:
  assumes "NewRequest_ok env (deviotServer g @ ''/api/v1/gateways'')"
  shows "\<exists>g'. heartbeat env first r g = Ok g' \<and> deviotServer g' = deviotServer g \<and>
           IsRegistered g' = (\<not> failed r) \<and>
           (if first \<or> state_changed g g' then logged g g' else unchanged_log g g')"
  using assms
  by (cases r)
     (simp_all add: heartbeat_def failed_def setRegistered_def IsRegistered_def Printf_def logged_def
        unchanged_log_def state_changed_def)

lemma iterations_edge:
  assumes "NewRequest_ok env (deviotServer g @ ''/api/v1/gateways'')"
  shows "length (iterations env rs f0 g) = length rs \<and>
         (\<forall>i<length rs.
            case iterations env rs f0 g ! i of
              (first, before, after) \<Rightarrow>
                first = (i = 0 \<and> f0) \<and>
                before = (if i = 0 then g else snd (snd (iterations env rs f0 g ! (i - 1)))) \<and>
                (if first \<or> state_changed before after
                 then logged before after else unchanged_log before after))"
  using assms
proof (induction rs arbitrary: f0 g)
  case Nil
  show ?case by simp
next
  case (Cons r rs)
  from heartbeat_edge [OF Cons.prems, of f0 r] obtain g' where
    hb: "heartbeat env f0 r g = Ok g'" and ds: "deviotServer g' = deviotServer g" and
    edge: "if f0 \<or> state_changed g g' then logged g g' else unchanged_log g g'"
    by blast
  from ds Cons.prems have ok': "NewRequest_ok env (deviotServer g' @ ''/api/v1/gateways'')"
    by simp
  note IH = Cons.IH [OF ok', of False]
  have its: "iterations env (r # rs) f0 g = (f0, g, g') # iterations env rs False g'"
    using hb by simp
  show ?case
  proof (intro conjI allI impI)
    show "length (iterations env (r # rs) f0 g) = length (r # rs)"
      unfolding its using IH by simp
  next
    fix i assume i: "i < length (r # rs)"
    show "case iterations env (r # rs) f0 g ! i of
              (first, before, after) \<Rightarrow>
                first = (i = 0 \<and> f0) \<and>
                before = (if i = 0 then g else snd (snd (iterations env (r # rs) f0 g ! (i - 1)))) \<and>
                (if first \<or> state_changed before after
                 then logged before after else unchanged_log before after)"
    proof (cases i)
      case 0
      show ?thesis unfolding 0 its using edge by simp
    next
      case (Suc j)
      with i have j: "j < length rs" by simp
      note IHj = conjunct2 [OF IH, rule_format, OF j]
      show ?thesis unfolding Suc its using IHj
        by (cases j) (simp_all split: prod.splits)
    qed
  qed
qed

lemma heartbeat_Ok_edge:
  assumes "heartbeat env first r g = Ok g'"
  shows "if first \<or> state_changed g g' then logged g g' else unchanged_log g g'"
  using assms
  by (cases r)
     (auto simp: heartbeat_def setRegistered_def IsRegistered_def Printf_def logged_def
        unchanged_log_def state_changed_def split: if_splits)

lemma iterations_completed:
  "\<forall>i<length (iterations env rs f0 g).
      case iterations env rs f0 g ! i of
        (first, before, after) \<Rightarrow>
          first = (i = 0 \<and> f0) \<and>
          before = (if i = 0 then g else snd (snd (iterations env rs f0 g ! (i - 1)))) \<and>
          (if first \<or> state_changed before after
           then logged before after else unchanged_log before after)"
proof (induction rs arbitrary: f0 g)
  case Nil
  show ?case by simp
next
  case (Cons r rs)
  show ?case
  proof (cases "heartbeat env f0 r g")
    case (Ok g')
    note edge = heartbeat_Ok_edge [OF Ok]
    have its: "iterations env (r # rs) f0 g = (f0, g, g') # iterations env rs False g'"
      using Ok by simp
    show ?thesis
    proof (intro allI impI)
      fix i assume i: "i < length (iterations env (r # rs) f0 g)"
      show "case iterations env (r # rs) f0 g ! i of
              (first, before, after) \<Rightarrow>
                first = (i = 0 \<and> f0) \<and>
                before = (if i = 0 then g else snd (snd (iterations env (r # rs) f0 g ! (i - 1)))) \<and>
                (if first \<or> state_changed before after
                 then logged before after else unchanged_log before after)"
      proof (cases i)
        case 0
        show ?thesis unfolding 0 its using edge by simp
      next
        case (Suc j)
        with i its have j: "j < length (iterations env rs False g')" by simp
        note IHj = Cons.IH [of False g', rule_format, OF j]
        show ?thesis unfolding Suc its using IHj
          by (cases j) (simp_all split: prod.splits)
      qed
    qed
  next
    case (Err e)
    then show ?thesis by simp
  next
    case (Panic p)
    then show ?thesis by simp
  qed
qed

lemma supervisor_three_failures:
  assumes ok: "NewRequest_ok env (deviotServer g @ ''/api/v1/gateways'')"
    and "\<not> IsRegistered g" "failed r1" "failed r2" "failed r3" "\<not> failed r4"
  shows "\<exists>g3 g4. supervisor env [r1, r2, r3] True g = Ok g3 \<and>
            length (Logger g3) = length (Logger g) + 1 \<and>
            supervisor env [r4] False g3 = Ok g4 \<and>
            length (Logger g4) = length (Logger g3) + 1"
proof -
  from heartbeat_edge [OF ok, of True r1] assms obtain g1 where
    1: "heartbeat env True r1 g = Ok g1" "deviotServer g1 = deviotServer g"
       "\<not> IsRegistered g1" "logged g g1" by (auto simp: state_changed_def)
  with ok have ok1: "NewRequest_ok env (deviotServer g1 @ ''/api/v1/gateways'')" by simp
  from heartbeat_edge [OF ok1, of False r2] assms 1 obtain g2 where
    2: "heartbeat env False r2 g1 = Ok g2" "deviotServer g2 = deviotServer g1"
       "\<not> IsRegistered g2" "unchanged_log g1 g2" by (auto simp: state_changed_def)
  with ok1 have ok2: "NewRequest_ok env (deviotServer g2 @ ''/api/v1/gateways'')" by simp
  from heartbeat_edge [OF ok2, of False r3] assms 2 obtain g3 where
    3: "heartbeat env False r3 g2 = Ok g3" "deviotServer g3 = deviotServer g2"
       "\<not> IsRegistered g3" "unchanged_log g2 g3" by (auto simp: state_changed_def)
  with ok2 have ok3: "NewRequest_ok env (deviotServer g3 @ ''/api/v1/gateways'')" by simp
  from heartbeat_edge [OF ok3, of False r4] assms 3 obtain g4 where
    4: "heartbeat env False r4 g3 = Ok g4" "IsRegistered g4" "logged g3 g4" by (auto simp: state_changed_def)
  have "supervisor env [r1, r2, r3] True g = Ok g3" using 1 2 3 by simp
  moreover have "length (Logger g3) = length (Logger g) + 1"
    using 1 2 3 by (simp add: logged_def unchanged_log_def)
  moreover have "supervisor env [r4] False g3 = Ok g4" using 4 by simp
  moreover have "length (Logger g4) = length (Logger g3) + 1" using 4 by (simp add: logged_def)
  ultimately show ?thesis by blast
qed


lemma edge_iff:
  assumes "if c then logged a b else unchanged_log a b"
  shows "(logged a b \<longleftrightarrow> c) \<and> (unchanged_log a b \<longleftrightarrow> \<not> c)"
  using assms by (cases c) (auto simp: logged_def unchanged_log_def)

lemma string_of_Some:
  "string_of v = Some s \<longleftrightarrow> v = Some (VString s)"
  by (auto simp: string_of_def split: option.splits go_value.splits)

lemma resolves_iff:
  "resolves g data w ad m \<longleftrightarrow>
     (\<exists>tid an. resolved_id data = Some (VString tid) \<and> g_Things g tid = Some w \<and>
        data ''action'' = Some (VString an) \<and>
        FindAction (w_thing w) an = Some ad \<and> MethodByName (w_instance w) an = Some m)"
proof -
  have n: "string_of (Some (VString x)) = Some x" for x
    by (simp add: string_of_def)
  show ?thesis
    by (auto simp: resolves_def string_of_Some n split: option.splits)
qed

lemma CallAction_resolved:
  assumes "resolves g data w ad m"
    and "NumIn m = length (a_Parameters ad) + 1 \<or> NumIn m = length (a_Parameters ad) + 2"
  shows "CallAction env g data =
     (case bind_args env data ad (w_instance w) m 1
             ((replicate (NumIn m) None)
                [0 := Some (VObject (i_type (w_instance w)) (i_ref (w_instance w)))]) of
        Panic p \<Rightarrow> Panic p
      | Err err \<Rightarrow> Ok (Printf ''%v'' [LErr err] g)
      | Ok args \<Rightarrow>
          Call env (w_instance w) m
            (if NumIn m = length (a_Parameters ad) + 2
             then (case data ''payload'' of
                     Some payload \<Rightarrow> args[length args - 1 := ValueOf payload]
                   | None \<Rightarrow> args)
             else args) g)"
proof -
  from assms(1) obtain tid an where
    r: "resolved_id data = Some (VString tid)" and t: "g_Things g tid = Some w" and
    a: "data ''action'' = Some (VString an)" and
    f: "FindAction (w_thing w) an = Some ad" and
    mb: "MethodByName (w_instance w) an = Some m"
    by (auto simp: resolves_iff)
  from r consider
      (byId) "data ''id'' = Some (VString tid)"
    | (byName) "data ''id'' = None" "data ''name'' = Some (VString tid)"
    by (auto simp: resolved_id_def split: option.splits)
  then show ?thesis
  proof cases
    case byId
    show ?thesis
      using assms(2)
      by (auto simp: CallAction_def byId a t f mb index_def assert_string_def ValueOf_def Let_def
            split: option.splits outcome.splits)
  next
    case byName
    show ?thesis
      using assms(2)
      by (auto simp: CallAction_def byName a t f mb index_def assert_string_def ValueOf_def Let_def
            split: option.splits outcome.splits)
  qed
qed

lemma bind_args_Err:
  assumes "k < length (a_Parameters ad)"
    and "data (p_Name (a_Parameters ad ! k)) = Some v"
    and "convert env (p_Type (a_Parameters ad ! k)) (In inst m (k + 1)) v = Err e"
    and "1 \<le> i" "i \<le> k + 1" "k + 1 < length args"
  shows "\<exists>e'. bind_args env data ad inst m i args = Err e'"
  using assms(4-6)
proof (induction "k + 1 - i" arbitrary: i args)
  case 0
  then have i: "i = k + 1" by simp
  show ?case
    using assms(1-3) 0(4)
    by (subst bind_args.simps) (simp add: i index_def)
next
  case (Suc n)
  then have lt: "i < length args" "i - 1 < length (a_Parameters ad)" "i - 1 < k"
    using assms(1) by simp_all
  have step: "\<And>x. \<exists>e'. bind_args env data ad inst m (i + 1) (args[i := x]) = Err e'"
    using Suc by (intro Suc(1)) simp_all
  show ?case
    using lt step
    by (subst bind_args.simps)
       (auto simp: index_def Let_def split: option.splits outcome.splits)
qed

lemma bind_args_extra:
  assumes "length args = length (a_Parameters ad) + 2"
    and "1 \<le> i" "i \<le> length (a_Parameters ad) + 1"
  shows "(\<exists>e. bind_args env data ad inst m i args = Err e) \<or>
         bind_args env data ad inst m i args =
           Panic (IndexOutOfRange (length (a_Parameters ad)) (length (a_Parameters ad)))"
  using assms
proof (induction "length (a_Parameters ad) + 1 - i" arbitrary: i args)
  case 0
  then have i: "i = length (a_Parameters ad) + 1" by simp
  show ?case
    using 0(2)
    by (subst bind_args.simps, subst (2) bind_args.simps) (simp add: i)
next
  case (Suc n)
  then have lt: "i < length args" "i - 1 < length (a_Parameters ad)" by simp_all
  have step: "\<And>x. (\<exists>e. bind_args env data ad inst m (i + 1) (args[i := x]) = Err e) \<or>
         bind_args env data ad inst m (i + 1) (args[i := x]) =
           Panic (IndexOutOfRange (length (a_Parameters ad)) (length (a_Parameters ad)))"
    using Suc by (intro Suc(1)) simp_all
  show ?case
    using lt step
    by (subst bind_args.simps, subst (2) bind_args.simps)
       (auto simp: index_def Let_def split: option.splits outcome.splits)
qed

lemma dimmer_gateway_eq:
  "dimmer_gateway =
     sample_gateway
       \<lparr>g_Things := [''dim1'' \<mapsto>
           \<lparr>w_thing = \<lparr>t_Id = ''dim1'', t_Name = ''Dimmer'', t_Kind = ''dimmer'',
                       t_Actions = [\<lparr>a_Name = ''SetLevel'', a_Parameters = [level_param]\<rparr>,
                                    \<lparr>a_Name = ''Fade'', a_Parameters = [level_param]\<rparr>],
                       t_Properties = []\<rparr>,
            w_instance = dimmer\<rparr>],
        Logger := [(''Thing %s.%s(%v) registered'', [LStr ''dim1'', LStr ''Dimmer'', LStr ''dimmer''])],
        calls := [InitCall 2 \<lparr>t_Id = ''dim1'', t_Name = ''Dimmer'', t_Kind = ''dimmer'',
                              t_Actions = [], t_Properties = []\<rparr>]\<rparr>"
  by (simp add: dimmer_gateway_def registered_with_def Register_def sample_gateway_def dimmer_def
        Elem_def has_elem_def ToLower_def lower_char_def Printf_def AddAction_def
        AddParameter_def Let_def)

lemmas dispatch_defs =
  CallAction_def index_def assert_string_def FindAction_def MethodByName_def NumIn_def
  In_def In_types_def ValueOf_def Call_def AssignableTo_def Printf_def Let_def
  bind_args.simps convert_def convert_switch_def to_integer_def assert_float64_def float_to_int_def
  f64_trunc_def

lemma convert_unsupported:
  "\<not> supported_kind (type_kind t) \<Longrightarrow> convert env p t v = Err (ConvertError t (TypeOf v))"
  by (cases "type_kind t") (simp_all add: convert_def convert_switch_def supported_kind_def)

lemma convert_mismatch:
  "numeric_kind (type_kind t) \<Longrightarrow> \<not> is_float64 v \<Longrightarrow>
   convert env p t v = Err (TypeAssertionError ''float64'' (TypeOf v))"
  by (cases "type_kind t"; cases v)
     (simp_all add: convert_def convert_switch_def numeric_kind_def supported_kind_def is_float64_def
        to_integer_def assert_float64_def)

lemma convert_total:
  "(\<exists>x. convert env p t v = Ok x) \<or> (\<exists>e. convert env p t v = Err e)"
  by (cases "convert env p t v") simp_all

lemma convert_seven:
  "convert env p int32_type (VFloat64 seven) = Ok (VInteger KInt32 7)"
  "convert env p string_type (VFloat64 seven) = Ok (VString ''7'')"
  by (simp_all add: convert_def convert_switch_def to_integer_def assert_float64_def float_to_int_def f64_trunc_def
        Sprintf_v_def format_float64_def small_whole_def digit_char_def decimal.simps)

lemma floor_nat_div_pow: "\<lfloor>real m / 2 ^ k\<rfloor> = int m div 2 ^ k"
proof -
  have "\<lfloor>real m / real (2 ^ k)\<rfloor> = int (m div 2 ^ k)"
    by (rule floor_divide_of_nat_eq)
  then show ?thesis by (simp add: zdiv_int)
qed

lemma toward_zero_nonneg: "toward_zero (real m * 2 ^ k) = int m * 2 ^ k"
proof -
  have "real m * 2 ^ k = of_int (int m * 2 ^ k)" by simp
  then show ?thesis unfolding toward_zero_def by (simp del: of_int_mult of_int_power)
qed

lemma f64_trunc_value:
  "f64_trunc f = map_option toward_zero (f64_value f)"
proof (cases f)
  case (F64 neg m e)
  define c :: real where "c = (if 0 \<le> e then 2 ^ nat e else 1 / 2 ^ nat (- e))"
  define a :: int where "a = (if 0 \<le> e then int m * 2 ^ nat e else int m div 2 ^ nat (- e))"
  have cpos: "0 < c" by (simp add: c_def)
  have fl: "\<lfloor>real m * c\<rfloor> = a"
    using toward_zero_nonneg [of m "nat e"] floor_nat_div_pow [of m "nat (- e)"]
    by (simp add: c_def a_def toward_zero_def)
  have v: "f64_value f = Some ((if neg then - 1 else 1) * real m * c)"
    by (simp add: F64 f64_value_def c_def)
  have t: "f64_trunc f = Some (if neg then - a else a)"
    by (simp add: F64 f64_trunc_def a_def Let_def)
  show ?thesis
  proof (cases "m = 0")
    case True
    then have "a = 0" by (simp add: a_def)
    with True show ?thesis by (simp add: v t toward_zero_def)
  next
    case False
    with cpos have pos: "0 < real m * c" by simp
    then have "toward_zero (real m * c) = a" "toward_zero (- (real m * c)) = - a"
      using fl by (simp_all add: toward_zero_def ceiling_minus)
    then show ?thesis by (simp add: v t)
  qed
qed (simp_all add: f64_trunc_def f64_value_def)

lemma convert_integer:
  assumes "integer_kind (type_kind t)"
  shows "convert env p t (VFloat64 f) = Ok (VInteger (type_kind t) (float_to_int env (type_kind t) f))"
  using assms
  by (cases "type_kind t")
     (simp_all add: integer_kind_def convert_def convert_switch_def to_integer_def assert_float64_def)

lemma float_to_int_in_range:
  assumes "f64_value f = Some x" and "int_range env k = Some (lo, hi)"
    and "lo \<le> toward_zero x" and "toward_zero x \<le> hi"
  shows "float_to_int env k f = toward_zero x"
  using assms by (simp add: float_to_int_def f64_trunc_value)

lemma int_range_integer_kind: "int_range env k \<noteq> None \<longleftrightarrow> integer_kind k"
  by (cases k) (simp_all add: integer_kind_def)

lemma convert_Ok_iff:
  "(\<exists>x. convert env p t v = Ok x) \<longleftrightarrow>
     type_kind t = KString \<or> (numeric_kind (type_kind t) \<and> is_float64 v)"
  by (cases "type_kind t"; cases v)
     (simp_all add: convert_def convert_switch_def to_integer_def assert_float64_def
        numeric_kind_def supported_kind_def is_float64_def)

lemma int_range_fixed:
  "int_range env KInt8 = Some (- 128, 127)"
  "int_range env KInt16 = Some (- 32768, 32767)"
  "int_range env KInt32 = Some (- 2147483648, 2147483647)"
  "int_range env KInt64 = Some (- 9223372036854775808, 9223372036854775807)"
  "int_range env KUint8 = Some (0, 255)"
  "int_range env KUint16 = Some (0, 65535)"
  "int_range env KUint32 = Some (0, 4294967295)"
  "int_range env KUint64 = Some (0, 18446744073709551615)"
  by simp_all

lemma int_range_int:
  "int_range env KInt = Some (- (2 ^ (int_bits env - 1)), 2 ^ (int_bits env - 1) - 1)"
  "int_range env KUint = Some (0, 2 ^ int_bits env - 1)"
  by simp_all

lemma convert_in_range:
  assumes "int_range env (type_kind t) = Some (lo, hi)" and "f64_value f = Some x"
    and "lo \<le> toward_zero x" and "toward_zero x \<le> hi"
  shows "convert env p t (VFloat64 f) = Ok (VInteger (type_kind t) (toward_zero x))"
proof -
  from assms(1) have "integer_kind (type_kind t)"
    using int_range_integer_kind [of env "type_kind t"] by simp
  then show ?thesis
    using float_to_int_in_range [OF assms(2) assms(1) assms(3) assms(4)]
    by (simp add: convert_integer)
qed

lemma convert_float_string:
  "type_kind t = KFloat32 \<Longrightarrow> convert env p t (VFloat64 f) = Ok (VFloat32 (round32 env f))"
  "type_kind t = KFloat64 \<Longrightarrow> convert env p t (VFloat64 f) = Ok (VFloat64 f)"
  "type_kind t = KString \<Longrightarrow> convert env p t v = Ok (VString (Sprintf_v env v))"
  by (simp_all add: convert_def convert_switch_def assert_float64_def)

lemma Sprintf_v_plain:
  "Sprintf_v env (VString s) = s"
  "Sprintf_v env (VBool True) = ''true''"
  "Sprintf_v env (VBool False) = ''false''"
  "Sprintf_v env VNil = ''<nil>''"
  by (simp_all add: Sprintf_v_def)

lemma convert_switch_panics:
  "convert_switch env p int32_type (VString s) = Panic (InterfaceConversion ''float64'' (Some string_type))"
  by (simp add: convert_switch_def to_integer_def assert_float64_def)

lemma CallAction_convert_error:
  assumes "resolves g data w ad m" and "arity_matches m ad"
    and "k < length (a_Parameters ad)"
    and "data (p_Name (a_Parameters ad ! k)) = Some u"
    and "convert env (p_Type (a_Parameters ad ! k)) (In (w_instance w) m (k + 1)) u = Err e"
  shows "\<exists>e'. CallAction env g data = Ok (Printf ''%v'' [LErr e'] g)"
proof -
  from assms(2,3) have len: "k + 1 < length ((replicate (NumIn m) (None :: reflect_Value))
                [0 := Some (VObject (i_type (w_instance w)) (i_ref (w_instance w)))])"
    by (auto simp: arity_matches_def)
  have "\<exists>e'. bind_args env data ad (w_instance w) m 1
             ((replicate (NumIn m) None)
                [0 := Some (VObject (i_type (w_instance w)) (i_ref (w_instance w)))]) = Err e'"
    by (rule bind_args_Err [where data = data and k = k and v = u and e = e, OF assms(3-5)])
       (use len in simp_all)
  then obtain e' where
    "bind_args env data ad (w_instance w) m 1
             ((replicate (NumIn m) None)
                [0 := Some (VObject (i_type (w_instance w)) (i_ref (w_instance w)))]) = Err e'"
    by blast
  then have "CallAction env g data = Ok (Printf ''%v'' [LErr e'] g)"
    using CallAction_resolved [OF assms(1) assms(2) [unfolded arity_matches_def], of env]
    by simp
  then show ?thesis by (rule exI)
qed

lemma CallAction_extra_parameter:
  assumes "resolves g data w ad m" and "NumIn m = length (a_Parameters ad) + 2"
  shows "(\<exists>e. CallAction env g data = Ok (Printf ''%v'' [LErr e] g)) \<or>
         CallAction env g data =
           Panic (IndexOutOfRange (length (a_Parameters ad)) (length (a_Parameters ad)))"
proof -
  have len: "length ((replicate (NumIn m) (None :: reflect_Value))
                [0 := Some (VObject (i_type (w_instance w)) (i_ref (w_instance w)))])
             = length (a_Parameters ad) + 2"
    using assms(2) by simp
  have "(\<exists>e. bind_args env data ad (w_instance w) m 1
             ((replicate (NumIn m) None)
                [0 := Some (VObject (i_type (w_instance w)) (i_ref (w_instance w)))]) = Err e) \<or>
        bind_args env data ad (w_instance w) m 1
             ((replicate (NumIn m) None)
                [0 := Some (VObject (i_type (w_instance w)) (i_ref (w_instance w)))]) =
           Panic (IndexOutOfRange (length (a_Parameters ad)) (length (a_Parameters ad)))"
    by (rule bind_args_extra [OF len]) simp_all
  then show ?thesis
    using CallAction_resolved [OF assms(1) disjI2 [OF assms(2)], of env]
    by auto
qed

lemma CallAction_unresolved_only_logs:
  assumes "\<forall>v. resolved_id data = Some v \<longrightarrow> (\<exists>s. v = VString s)"
    and "\<forall>v. data ''action'' = Some v \<longrightarrow> (\<exists>s. v = VString s)"
    and "\<not> (\<exists>w ad m. resolves g data w ad m \<and> arity_matches m ad)"
  shows "\<exists>format args. CallAction env g data = Ok (Printf format args g)"
proof (cases "resolved_id data")
  case None
  then show ?thesis
    by (auto simp: CallAction_def resolved_id_def index_def split: option.splits)
next
  case (Some v)
  with assms(1) obtain tid where v: "v = VString tid" by blast
  from Some v have idx: "(case index data ''id'' of (ident, found) \<Rightarrow>
          (if \<not> found then index data ''name'' else (ident, found))) = (VString tid, True)"
    by (auto simp: resolved_id_def index_def split: option.splits)
  show ?thesis
  proof (cases "g_Things g tid")
    case None
    then show ?thesis using Some v
      by (auto simp: CallAction_def resolved_id_def index_def assert_string_def split: option.splits)
  next
    case w: (Some w)
    show ?thesis
    proof (cases "data ''action''")
      case None
      then show ?thesis using Some v w
        by (auto simp: CallAction_def resolved_id_def index_def assert_string_def split: option.splits)
    next
      case a: (Some a)
      with assms(2) obtain an where an: "a = VString an" by blast
      from assms(3) Some v w a an
      have nores: "\<And>ad m. FindAction (w_thing w) an = Some ad \<Longrightarrow>
                      MethodByName (w_instance w) an = Some m \<Longrightarrow> \<not> arity_matches m ad"
        by (auto simp: resolves_iff)
      show ?thesis using Some v w a an nores
        by (auto simp: CallAction_def resolved_id_def index_def assert_string_def arity_matches_def
               split: option.splits)
    qed
  qed
qed

lemma claim_conditions_unresolved:
  "data ''id'' = None \<Longrightarrow> data ''name'' = None \<Longrightarrow>
     \<not> (\<exists>w ad m. resolves g data w ad m \<and> arity_matches m ad)"
  "resolved_id data = Some v \<Longrightarrow> \<not> is_registry_key g v \<Longrightarrow>
     \<not> (\<exists>w ad m. resolves g data w ad m \<and> arity_matches m ad)"
  "data ''action'' = None \<Longrightarrow>
     \<not> (\<exists>w ad m. resolves g data w ad m \<and> arity_matches m ad)"
  "resolved_id data = Some (VString tid) \<Longrightarrow> g_Things g tid = Some w' \<Longrightarrow>
   data ''action'' = Some (VString an) \<Longrightarrow> FindAction (w_thing w') an = None \<Longrightarrow>
     \<not> (\<exists>w ad m. resolves g data w ad m \<and> arity_matches m ad)"
  "resolved_id data = Some (VString tid) \<Longrightarrow> g_Things g tid = Some w' \<Longrightarrow>
   data ''action'' = Some (VString an) \<Longrightarrow> MethodByName (w_instance w') an = None \<Longrightarrow>
     \<not> (\<exists>w ad m. resolves g data w ad m \<and> arity_matches m ad)"
  "resolved_id data = Some (VString tid) \<Longrightarrow> g_Things g tid = Some w' \<Longrightarrow>
   data ''action'' = Some (VString an) \<Longrightarrow> FindAction (w_thing w') an = Some ad' \<Longrightarrow>
   MethodByName (w_instance w') an = Some m' \<Longrightarrow>
   NumIn m' \<noteq> length (a_Parameters ad') + 1 \<Longrightarrow> NumIn m' \<noteq> length (a_Parameters ad') + 2 \<Longrightarrow>
     \<not> (\<exists>w ad m. resolves g data w ad m \<and> arity_matches m ad)"
  by (auto simp: resolves_iff resolved_id_def is_registry_key_def arity_matches_def)

lemma dimmer_resolves:
  "resolves dimmer_gateway
     [''id'' \<mapsto> VString ''dim1'', ''action'' \<mapsto> VString ''SetLevel'', ''level'' \<mapsto> VString ''high'']
     dimmer_entry SetLevel_action SetLevel_method"
  by (simp add: resolves_def string_of_def resolved_id_def dimmer_gateway_eq dimmer_entry_def
        dimmer_def SetLevel_action_def SetLevel_method_def FindAction_def MethodByName_def)

section \<open>The claims\<close>

text \<open>
  C1, as amended. For the registered thing "lamp1" whose action is named exactly as the
  Instance's operation, "SetOn", with the single parameter
  \<^verbatim>\<open>{name: "on", type: Bool, value: false}\<close> and the operation \<^verbatim>\<open>SetOn(on bool)\<close>,
  dispatching \<^verbatim>\<open>{"id":"lamp1","action":"SetOn"}\<close> (parameter absent) invokes that
  operation exactly once, with the declared default \<open>on = false\<close>.
\<close>

theorem lamp_default_dispatch:
  "invokes_once env (lamp_gateway ''SetOn'')
     [''id'' \<mapsto> VString ''lamp1'', ''action'' \<mapsto> VString ''SetOn''] 1 ''SetOn'' [VBool False]"
  by (simp add: invokes_once_def lamp_gateway_eq lamp_def on_param_def dispatch_defs)

text \<open>
  C1 as stated fails. With the action named "setOn" and the operation named SetOn, the
  lookup \<^verbatim>\<open>MethodByName("setOn")\<close> finds nothing: both dispatches log "thing method
  not available" and invoke nothing. With the action renamed to "SetOn", the dispatch
  carrying \<^verbatim>\<open>"on": true\<close> still invokes nothing: \<^verbatim>\<open>convert\<close> has no case for a
  target of kind Bool and reports an error.
\<close>

theorem lamp_dispatch_counterexample:
  "CallAction sample_env (lamp_gateway ''setOn'')
     [''id'' \<mapsto> VString ''lamp1'', ''action'' \<mapsto> VString ''setOn'', ''on'' \<mapsto> VBool True]
   = Ok (Printf ''Illegal message, thing method(%v) not available'' [LVal (VString ''setOn'')]
           (lamp_gateway ''setOn'')) \<and>
   \<not> invokes_once sample_env (lamp_gateway ''setOn'')
     [''id'' \<mapsto> VString ''lamp1'', ''action'' \<mapsto> VString ''setOn'', ''on'' \<mapsto> VBool True]
     1 ''SetOn'' [VBool True] \<and>
   \<not> invokes_once sample_env (lamp_gateway ''setOn'')
     [''id'' \<mapsto> VString ''lamp1'', ''action'' \<mapsto> VString ''setOn'']
     1 ''SetOn'' [VBool False] \<and>
   CallAction sample_env (lamp_gateway ''SetOn'')
     [''id'' \<mapsto> VString ''lamp1'', ''action'' \<mapsto> VString ''SetOn'', ''on'' \<mapsto> VBool True]
   = Ok (Printf ''%v'' [LErr (ConvertError bool_type (Some bool_type))] (lamp_gateway ''SetOn'')) \<and>
   \<not> invokes_once sample_env (lamp_gateway ''SetOn'')
     [''id'' \<mapsto> VString ''lamp1'', ''action'' \<mapsto> VString ''SetOn'', ''on'' \<mapsto> VBool True]
     1 ''SetOn'' [VBool True]"
  by (simp add: invokes_once_def lamp_gateway_eq lamp_def on_param_def dispatch_defs)

text \<open>
  C2. \<^verbatim>\<open>convert\<close> never panics: for every value and target type it returns a
  converted value or an error (the panic of a failed type assertion in its body is
  recovered), and its result is a function of its arguments. It returns a value exactly
  when the target kind is String, or the target kind is one of Int, Int8..Int64, Uint,
  Uint8..Uint64, Float32, Float64 and the value is a float64. For such a value an integer
  target gets an integer of the target kind, which is the float truncated towards zero
  whenever that fits the target type (the ranges are those of the Go types); a Float32
  target gets the rounded float, a Float64 target the float itself; a String target gets
  the default text of any value (a string as itself, a bool as true or false). The float
  7.0 converts to 7 for a target of kind Int32 and to "7" for a target of kind String.
  For a target kind outside the supported ones \<^verbatim>\<open>convert\<close> returns an error, and so
  it does for a numeric target when the value is not a float64 (a string, say). In a
  dispatch that has resolved its thing, action and method with a fitting parameter count,
  an error of \<^verbatim>\<open>convert\<close> on any declared parameter present in the envelope ends
  the dispatch with that error logged and nothing else changed: no operation is invoked.
\<close>

theorem convert_total_and_dispatch_aborts:
  "(\<forall>r. convert env p t v \<noteq> Panic r) \<and>
   ((\<exists>y. convert env p t v = Ok y) \<or> (\<exists>e. convert env p t v = Err e)) \<and>
   ((\<exists>y. convert env p t v = Ok y) \<longleftrightarrow>
      type_kind t = KString \<or> (numeric_kind (type_kind t) \<and> is_float64 v)) \<and>
   (integer_kind (type_kind t) \<longrightarrow>
      (\<exists>n. convert env p t (VFloat64 f) = Ok (VInteger (type_kind t) n))) \<and>
   (int_range env (type_kind t) = Some (lo, hi) \<and> f64_value f = Some x \<and>
    lo \<le> toward_zero x \<and> toward_zero x \<le> hi \<longrightarrow>
      convert env p t (VFloat64 f) = Ok (VInteger (type_kind t) (toward_zero x))) \<and>
   int_range env KInt8 = Some (- 128, 127) \<and>
   int_range env KInt16 = Some (- 32768, 32767) \<and>
   int_range env KInt32 = Some (- 2147483648, 2147483647) \<and>
   int_range env KInt64 = Some (- 9223372036854775808, 9223372036854775807) \<and>
   int_range env KUint8 = Some (0, 255) \<and>
   int_range env KUint16 = Some (0, 65535) \<and>
   int_range env KUint32 = Some (0, 4294967295) \<and>
   int_range env KUint64 = Some (0, 18446744073709551615) \<and>
   int_range env KInt = Some (- (2 ^ (int_bits env - 1)), 2 ^ (int_bits env - 1) - 1) \<and>
   int_range env KUint = Some (0, 2 ^ int_bits env - 1) \<and>
   (type_kind t = KFloat32 \<longrightarrow> convert env p t (VFloat64 f) = Ok (VFloat32 (round32 env f))) \<and>
   (type_kind t = KFloat64 \<longrightarrow> convert env p t (VFloat64 f) = Ok (VFloat64 f)) \<and>
   (type_kind t = KString \<longrightarrow> convert env p t v = Ok (VString (Sprintf_v env v))) \<and>
   convert env p string_type (VString s) = Ok (VString s) \<and>
   convert env p string_type (VBool True) = Ok (VString ''true'') \<and>
   convert env p string_type (VBool False) = Ok (VString ''false'') \<and>
   convert env p int32_type (VFloat64 seven) = Ok (VInteger KInt32 7) \<and>
   convert env p string_type (VFloat64 seven) = Ok (VString ''7'') \<and>
   (\<not> supported_kind (type_kind t) \<longrightarrow> convert env p t v = Err (ConvertError t (TypeOf v))) \<and>
   (numeric_kind (type_kind t) \<and> \<not> is_float64 v \<longrightarrow>
      convert env p t v = Err (TypeAssertionError ''float64'' (TypeOf v))) \<and>
   (resolves g data w ad m \<and> arity_matches m ad \<and> k < length (a_Parameters ad) \<and>
    data (p_Name (a_Parameters ad ! k)) = Some u \<and>
    convert env (p_Type (a_Parameters ad ! k)) (In (w_instance w) m (k + 1)) u = Err e \<longrightarrow>
      (\<exists>e' g'. CallAction env g data = Ok g' \<and>
         Logger g' = Logger g @ [(''%v'', [LErr e'])] \<and>
         calls g' = calls g \<and> g_Things g' = g_Things g \<and> g' = g\<lparr>Logger := Logger g'\<rparr>))"
proof -
  have c1: "\<forall>r. convert env p t v \<noteq> Panic r"
    by simp
  have c2: "(\<exists>y. convert env p t v = Ok y) \<or> (\<exists>e. convert env p t v = Err e)"
    by (rule convert_total)
  have c3: "(\<exists>y. convert env p t v = Ok y) \<longleftrightarrow>
      type_kind t = KString \<or> (numeric_kind (type_kind t) \<and> is_float64 v)"
    by (rule convert_Ok_iff)
  have c4: "integer_kind (type_kind t) \<longrightarrow>
      (\<exists>n. convert env p t (VFloat64 f) = Ok (VInteger (type_kind t) n))"
    by (simp add: convert_integer)
  have c5: "int_range env (type_kind t) = Some (lo, hi) \<and> f64_value f = Some x \<and>
    lo \<le> toward_zero x \<and> toward_zero x \<le> hi \<longrightarrow>
      convert env p t (VFloat64 f) = Ok (VInteger (type_kind t) (toward_zero x))"
    by (simp add: convert_in_range)
  have c6: "(type_kind t = KFloat32 \<longrightarrow> convert env p t (VFloat64 f) = Ok (VFloat32 (round32 env f))) \<and>
   (type_kind t = KFloat64 \<longrightarrow> convert env p t (VFloat64 f) = Ok (VFloat64 f)) \<and>
   (type_kind t = KString \<longrightarrow> convert env p t v = Ok (VString (Sprintf_v env v)))"
    by (simp add: convert_float_string)
  have c7: "convert env p string_type (VString s) = Ok (VString s) \<and>
   convert env p string_type (VBool True) = Ok (VString ''true'') \<and>
   convert env p string_type (VBool False) = Ok (VString ''false'')"
    by (simp add: convert_float_string Sprintf_v_plain)
  have c8: "convert env p int32_type (VFloat64 seven) = Ok (VInteger KInt32 7) \<and>
   convert env p string_type (VFloat64 seven) = Ok (VString ''7'')"
    by (simp add: convert_seven)
  have c9: "\<not> supported_kind (type_kind t) \<longrightarrow> convert env p t v = Err (ConvertError t (TypeOf v))"
    by (simp add: convert_unsupported)
  have c10: "numeric_kind (type_kind t) \<and> \<not> is_float64 v \<longrightarrow>
      convert env p t v = Err (TypeAssertionError ''float64'' (TypeOf v))"
    by (simp add: convert_mismatch)
  have c11: "resolves g data w ad m \<and> arity_matches m ad \<and> k < length (a_Parameters ad) \<and>
    data (p_Name (a_Parameters ad ! k)) = Some u \<and>
    convert env (p_Type (a_Parameters ad ! k)) (In (w_instance w) m (k + 1)) u = Err e \<longrightarrow>
      (\<exists>e' g'. CallAction env g data = Ok g' \<and>
         Logger g' = Logger g @ [(''%v'', [LErr e'])] \<and>
         calls g' = calls g \<and> g_Things g' = g_Things g \<and> g' = g\<lparr>Logger := Logger g'\<rparr>)"
  proof
    assume h: "resolves g data w ad m \<and> arity_matches m ad \<and> k < length (a_Parameters ad) \<and>
        data (p_Name (a_Parameters ad ! k)) = Some u \<and>
        convert env (p_Type (a_Parameters ad ! k)) (In (w_instance w) m (k + 1)) u = Err e"
    then have 1: "resolves g data w ad m" and 2: "arity_matches m ad"
      and 3: "k < length (a_Parameters ad)"
      and 4: "data (p_Name (a_Parameters ad ! k)) = Some u"
      and 5: "convert env (p_Type (a_Parameters ad ! k)) (In (w_instance w) m (k + 1)) u = Err e"
      by simp_all
    have "\<exists>e'. CallAction env g data = Ok (Printf ''%v'' [LErr e'] g)"
      by (rule CallAction_convert_error [where data = data and k = k and u = u and e = e,
            OF 1 2 3 4 5])
    then obtain e' where "CallAction env g data = Ok (Printf ''%v'' [LErr e'] g)" ..
    then show "\<exists>e' g'. CallAction env g data = Ok g' \<and>
         Logger g' = Logger g @ [(''%v'', [LErr e'])] \<and>
         calls g' = calls g \<and> g_Things g' = g_Things g \<and> g' = g\<lparr>Logger := Logger g'\<rparr>"
      by (simp add: Printf_def)
  qed
  note r = int_range_fixed [of env] int_range_int [of env]
  show ?thesis
    using c1 c2 c3 c4 c5 c6 c7 c8 c9 c10 c11 r
    by (intro conjI) (rule TrueI | assumption | elim conjE)+
qed

theorem convert_total_and_dispatch_aborts_witness:
  "integer_kind (type_kind (basic ''int8'' KInt8)) \<and>
   int_range sample_env (type_kind (basic ''int8'' KInt8)) = Some (- 128, 127) \<and>
   f64_value (F64 True 35 (- 1)) = Some (- 35 / 2) \<and>
   - 128 \<le> toward_zero (- 35 / 2) \<and> toward_zero (- 35 / 2) \<le> 127 \<and>
   convert sample_env 0 (basic ''int8'' KInt8) (VFloat64 (F64 True 35 (- 1)))
     = Ok (VInteger KInt8 (- 17)) \<and>
   convert sample_env 0 (basic ''float32'' KFloat32) (VFloat64 seven)
     = Ok (VFloat32 (round32 sample_env seven)) \<and>
   convert sample_env 0 float64_type (VFloat64 seven) = Ok (VFloat64 seven) \<and>
   convert sample_env 1 string_type VNil = Ok (VString ''<nil>'') \<and>
   \<not> supported_kind (type_kind bool_type) \<and>
   convert sample_env 2 bool_type (VBool True) = Err (ConvertError bool_type (Some bool_type)) \<and>
   numeric_kind (type_kind int32_type) \<and> \<not> is_float64 (VString ''high'') \<and>
   convert sample_env 0 int32_type (VString ''high'')
     = Err (TypeAssertionError ''float64'' (Some string_type)) \<and>
   resolves dimmer_gateway
     [''id'' \<mapsto> VString ''dim1'', ''action'' \<mapsto> VString ''SetLevel'', ''level'' \<mapsto> VString ''high'']
     dimmer_entry SetLevel_action SetLevel_method \<and>
   arity_matches SetLevel_method SetLevel_action \<and>
   (0::nat) < length (a_Parameters SetLevel_action) \<and>
   [''id'' \<mapsto> VString ''dim1'', ''action'' \<mapsto> VString ''SetLevel'', ''level'' \<mapsto> VString ''high'']
     (p_Name (a_Parameters SetLevel_action ! 0)) = Some (VString ''high'') \<and>
   convert sample_env (p_Type (a_Parameters SetLevel_action ! 0))
     (In (w_instance dimmer_entry) SetLevel_method (0 + 1)) (VString ''high'')
     = Err (TypeAssertionError ''float64'' (Some string_type)) \<and>
   (\<exists>e' g'. CallAction sample_env dimmer_gateway
            [''id'' \<mapsto> VString ''dim1'', ''action'' \<mapsto> VString ''SetLevel'',
             ''level'' \<mapsto> VString ''high''] = Ok g' \<and>
          Logger g' = Logger dimmer_gateway @ [(''%v'', [LErr e'])] \<and>
          calls g' = calls dimmer_gateway \<and> g_Things g' = g_Things dimmer_gateway)"
proof -
  have i: "integer_kind (type_kind (basic ''int8'' KInt8))"
    by (simp add: integer_kind_def)
  have r: "int_range sample_env (type_kind (basic ''int8'' KInt8)) = Some (- 128, 127)"
    by simp
  have x: "f64_value (F64 True 35 (- 1)) = Some (- 35 / 2)"
    by (simp add: f64_value_def)
  have tz: "toward_zero (- 35 / 2) = - 17"
    by (simp add: toward_zero_def)
  have a: "\<not> supported_kind (type_kind bool_type)"
    by (simp add: supported_kind_def)
  have b: "numeric_kind (type_kind int32_type) \<and> \<not> is_float64 (VString ''high'')"
    by (simp add: numeric_kind_def supported_kind_def is_float64_def)
  have c: "arity_matches SetLevel_method SetLevel_action"
    "(0::nat) < length (a_Parameters SetLevel_action)"
    "[''id'' \<mapsto> VString ''dim1'', ''action'' \<mapsto> VString ''SetLevel'', ''level'' \<mapsto> VString ''high'']
       (p_Name (a_Parameters SetLevel_action ! 0)) = Some (VString ''high'')"
    "convert sample_env (p_Type (a_Parameters SetLevel_action ! 0))
       (In (w_instance dimmer_entry) SetLevel_method (0 + 1)) (VString ''high'')
       = Err (TypeAssertionError ''float64'' (Some string_type))"
    by (simp_all add: arity_matches_def SetLevel_method_def SetLevel_action_def level_param_def
          NumIn_def In_def In_types_def dimmer_entry_def convert_def convert_switch_def
          to_integer_def assert_float64_def)
  note TA = convert_total_and_dispatch_aborts [where env = sample_env and p = 0
      and t = "basic ''int8'' KInt8" and f = "F64 True 35 (- 1)" and lo = "- 128" and hi = 127
      and x = "- 35 / 2" and g = dimmer_gateway
      and data = "[''id'' \<mapsto> VString ''dim1'', ''action'' \<mapsto> VString ''SetLevel'',
                   ''level'' \<mapsto> VString ''high'']"
      and w = dimmer_entry and ad = SetLevel_action and m = SetLevel_method and k = 0
      and u = "VString ''high''" and e = "TypeAssertionError ''float64'' (Some string_type)"]
  note TB = convert_total_and_dispatch_aborts [where env = sample_env and p = 0
      and t = "basic ''float32'' KFloat32" and f = seven]
  note TC = convert_total_and_dispatch_aborts [where env = sample_env and p = 0
      and t = float64_type and f = seven]
  note TD = convert_total_and_dispatch_aborts [where env = sample_env and p = 1
      and t = string_type and v = VNil]
  note TE = convert_total_and_dispatch_aborts [where env = sample_env and p = 2
      and t = bool_type and v = "VBool True"]
  note TF = convert_total_and_dispatch_aborts [where env = sample_env and p = 0
      and t = int32_type and v = "VString ''high''"]
  from TA r x tz have 1: "convert sample_env 0 (basic ''int8'' KInt8) (VFloat64 (F64 True 35 (- 1)))
     = Ok (VInteger KInt8 (- 17))" by simp
  from TB have 2: "convert sample_env 0 (basic ''float32'' KFloat32) (VFloat64 seven)
     = Ok (VFloat32 (round32 sample_env seven))" by simp
  from TC have 3: "convert sample_env 0 float64_type (VFloat64 seven) = Ok (VFloat64 seven)"
    by simp
  from TD have 4: "convert sample_env 1 string_type VNil = Ok (VString ''<nil>'')"
    by (simp add: Sprintf_v_plain)
  from TE a have 5: "convert sample_env 2 bool_type (VBool True)
      = Err (ConvertError bool_type (Some bool_type))" by simp
  from TF b have 6: "convert sample_env 0 int32_type (VString ''high'')
     = Err (TypeAssertionError ''float64'' (Some string_type))" by simp
  from TA dimmer_resolves c have 7:
    "\<exists>e' g'. CallAction sample_env dimmer_gateway
            [''id'' \<mapsto> VString ''dim1'', ''action'' \<mapsto> VString ''SetLevel'',
             ''level'' \<mapsto> VString ''high''] = Ok g' \<and>
          Logger g' = Logger dimmer_gateway @ [(''%v'', [LErr e'])] \<and>
          calls g' = calls dimmer_gateway \<and> g_Things g' = g_Things dimmer_gateway"
    by simp metis
  have tz': "- 128 \<le> toward_zero (- 35 / 2)" "toward_zero (- 35 / 2) \<le> 127"
    unfolding tz by simp_all
  show ?thesis using i r x tz' a b c dimmer_resolves 1 2 3 4 5 6 7
    by (intro conjI) simp_all
qed

text \<open>
  C3 fails on the code for an envelope whose "id" (or "name", or "action") is not a
  string. The envelope \<^verbatim>\<open>{"id": 5}\<close> resolves the identifier 5, which is no registry
  key, so the claim promises a log line and a normal return; the unchecked assertion
  \<^verbatim>\<open>id.(string)\<close> panics instead. The same happens for \<^verbatim>\<open>{"id": null, ...}\<close> and
  for a registered id with \<^verbatim>\<open>"action": 5\<close>. (For envelopes whose identifier and
  action are strings the claim holds: \<open>CallAction_unresolved_only_logs\<close> with
  \<open>claim_conditions_unresolved\<close>.)
\<close>

theorem dispatch_non_string_id_panics:
  "resolved_id [''id'' \<mapsto> VFloat64 five] = Some (VFloat64 five) \<and>
   \<not> is_registry_key dimmer_gateway (VFloat64 five) \<and>
   CallAction env dimmer_gateway [''id'' \<mapsto> VFloat64 five]
     = Panic (InterfaceConversion ''string'' (Some float64_type)) \<and>
   CallAction env dimmer_gateway [''id'' \<mapsto> VNil, ''action'' \<mapsto> VString ''SetLevel'']
     = Panic (InterfaceConversion ''string'' None) \<and>
   CallAction env dimmer_gateway [''id'' \<mapsto> VString ''dim1'', ''action'' \<mapsto> VFloat64 five]
     = Panic (InterfaceConversion ''string'' (Some float64_type))"
  by (simp add: resolved_id_def is_registry_key_def dimmer_gateway_eq dimmer_def dispatch_defs)

text \<open>
  C4. For every registry state in which the id is already a key,
  \<^verbatim>\<open>Register(id, name, instance)\<close> returns with the registry unchanged: the original
  entry of that id is kept, the number of entries is the same, no \<^verbatim>\<open>Init\<close> (nor any
  other Instance code) is called, and the only effect is one "already registered" line
  in the log. No error or panic results.
\<close>

theorem Register_duplicate_noop:
  assumes "g_Things g tid = Some w"
  shows "\<exists>g'. Register env g tid name inst = Ok g' \<and>
           g_Things g' = g_Things g \<and> g_Things g' tid = Some w \<and>
           card (dom (g_Things g')) = card (dom (g_Things g)) \<and>
           calls g' = calls g \<and>
           Logger g' = Logger g @ [(''Thing %s has already been registered'', [LStr tid])] \<and>
           g' = g\<lparr>Logger := Logger g'\<rparr>"
  using assms by (simp add: Register_def Printf_def)

theorem Register_duplicate_noop_witness:
  "g_Things (lamp_gateway ''SetOn'') ''lamp1'' =
     Some \<lparr>w_thing = \<lparr>t_Id = ''lamp1'', t_Name = ''Lamp'', t_Kind = ''lamp'',
                       t_Actions = [\<lparr>a_Name = ''SetOn'', a_Parameters = [on_param]\<rparr>],
                       t_Properties = []\<rparr>,
           w_instance = lamp ''SetOn''\<rparr> \<and>
   (\<exists>g'. Register sample_env (lamp_gateway ''SetOn'') ''lamp1'' ''Other'' (Some dimmer) = Ok g' \<and>
         g_Things g' = g_Things (lamp_gateway ''SetOn'') \<and>
         g_Things g' ''lamp1'' =
           Some \<lparr>w_thing = \<lparr>t_Id = ''lamp1'', t_Name = ''Lamp'', t_Kind = ''lamp'',
                             t_Actions = [\<lparr>a_Name = ''SetOn'', a_Parameters = [on_param]\<rparr>],
                             t_Properties = []\<rparr>,
                 w_instance = lamp ''SetOn''\<rparr> \<and>
         calls g' = calls (lamp_gateway ''SetOn''))"
proof -
  have h: "g_Things (lamp_gateway ''SetOn'') ''lamp1'' =
     Some \<lparr>w_thing = \<lparr>t_Id = ''lamp1'', t_Name = ''Lamp'', t_Kind = ''lamp'',
                       t_Actions = [\<lparr>a_Name = ''SetOn'', a_Parameters = [on_param]\<rparr>],
                       t_Properties = []\<rparr>,
           w_instance = lamp ''SetOn''\<rparr>"
    by (simp add: lamp_gateway_eq)
  from Register_duplicate_noop [OF h, where env = sample_env and name = "''Other''"
      and inst = "Some dimmer"] h show ?thesis
    by blast
qed

text \<open>
  C5 fails on the code. For an operation with one parameter more than the Action declares
  (receiver plus the declared parameters plus a trailing payload parameter), the binding
  loop runs \<open>i\<close> up to the payload slot and reads \<^verbatim>\<open>actionDef.Parameters[i-1]\<close>
  one past the end: the dispatch panics with an index out of range, whether or not the
  envelope carries "payload", and the operation is never invoked. (In general such a
  dispatch ends in that panic or in a logged conversion error:
  \<open>CallAction_extra_parameter\<close>.)
\<close>

theorem dispatch_payload_method_panics:
  "CallAction env dimmer_gateway
     [''id'' \<mapsto> VString ''dim1'', ''action'' \<mapsto> VString ''Fade'',
      ''level'' \<mapsto> VFloat64 seven, ''payload'' \<mapsto> VString ''slow'']
   = Panic (IndexOutOfRange 1 1) \<and>
   CallAction env dimmer_gateway
     [''id'' \<mapsto> VString ''dim1'', ''action'' \<mapsto> VString ''Fade'', ''level'' \<mapsto> VFloat64 seven]
   = Panic (IndexOutOfRange 1 1)"
  by (simp add: dimmer_gateway_eq dimmer_def level_param_def dispatch_defs)

text \<open>
  C6 fails on the code when \<^verbatim>\<open>http.NewRequest\<close> cannot parse the registration URL.
  With the management server address \<^verbatim>\<open>"http://a b"\<close> it returns a nil request and
  an error that is never looked at; the next statement, \<^verbatim>\<open>req.Header.Set\<close>,
  dereferences nil. The first pass of the loop therefore panics before it logs anything,
  whatever \<^verbatim>\<open>client.Do\<close> would have returned, where the claim has the first pass log;
  no pass completes and the loop does not go on.
\<close>

theorem heartbeat_bad_url_panics:
  "\<not> NewRequest_ok bad_url_env (deviotServer bad_url_gateway @ ''/api/v1/gateways'') \<and>
   heartbeat bad_url_env True r bad_url_gateway = Panic NilPointerDereference \<and>
   iterations bad_url_env (r # rs) True bad_url_gateway = [] \<and>
   supervisor bad_url_env (r # rs) True bad_url_gateway = Panic NilPointerDereference"
  by (simp add: heartbeat_def bad_url_env_def bad_url_gateway_def sample_gateway_def)

text \<open>
  For every registration URL that \<^verbatim>\<open>http.NewRequest\<close> accepts the loop does what C6
  says. Over any sequence of results of \<^verbatim>\<open>client.Do\<close>, a completed pass adds a line
  to the log if and only if it is the first pass or the registration state changes on it,
  and otherwise leaves the log as it was; the first pass is the only one run with
  \<^verbatim>\<open>first\<close> set, and each pass starts from the state the one before it left. When
  the URL is accepted every pass completes; then three failed heartbeats in a row from
  the initial unregistered state add exactly one line, and the successful heartbeat after
  them adds exactly one more.
\<close>

lemma supervisor_edge_triggered_logging:
  "(\<forall>i<length (iterations env rs True g).
      case iterations env rs True g ! i of
        (first, before, after) \<Rightarrow>
          first = (i = 0) \<and>
          before = (if i = 0 then g else snd (snd (iterations env rs True g ! (i - 1)))) \<and>
          (logged before after \<longleftrightarrow> first \<or> state_changed before after) \<and>
          (unchanged_log before after \<longleftrightarrow> \<not> (first \<or> state_changed before after))) \<and>
   (NewRequest_ok env (deviotServer g @ ''/api/v1/gateways'') \<longrightarrow>
      length (iterations env rs True g) = length rs) \<and>
   (NewRequest_ok env (deviotServer g @ ''/api/v1/gateways'') \<and>
    \<not> IsRegistered g \<and> failed r1 \<and> failed r2 \<and> failed r3 \<and> \<not> failed r4 \<longrightarrow>
      (\<exists>g3 g4. supervisor env [r1, r2, r3] True g = Ok g3 \<and>
         length (Logger g3) = length (Logger g) + 1 \<and>
         supervisor env [r4] False g3 = Ok g4 \<and>
         length (Logger g4) = length (Logger g3) + 1))"
proof (intro conjI allI impI)
  fix i assume i: "i < length (iterations env rs True g)"
  note e = iterations_completed [of env rs True g, rule_format, OF i]
  obtain first before after where t: "iterations env rs True g ! i = (first, before, after)"
    by (cases "iterations env rs True g ! i") auto
  note e' = e [unfolded t prod.case]
  have 1: "first = (i = 0)"
    using conjunct1 [OF e'] by simp
  have 2: "before = (if i = 0 then g else snd (snd (iterations env rs True g ! (i - 1))))"
    using e' by (rule conjunct1 [OF conjunct2])
  have 3: "if first \<or> state_changed before after then logged before after
           else unchanged_log before after"
    using e' by (rule conjunct2 [OF conjunct2])
  from edge_iff [OF 3] 1 2 show
    "case iterations env rs True g ! i of
       (first, before, after) \<Rightarrow>
         first = (i = 0) \<and>
         before = (if i = 0 then g else snd (snd (iterations env rs True g ! (i - 1)))) \<and>
         (logged before after \<longleftrightarrow> first \<or> state_changed before after) \<and>
         (unchanged_log before after \<longleftrightarrow> \<not> (first \<or> state_changed before after))"
    unfolding t by simp
next
  assume ok: "NewRequest_ok env (deviotServer g @ ''/api/v1/gateways'')"
  show "length (iterations env rs True g) = length rs"
    using iterations_edge [OF ok, of rs True] by (rule conjunct1)
next
  assume h: "NewRequest_ok env (deviotServer g @ ''/api/v1/gateways'') \<and>
    \<not> IsRegistered g \<and> failed r1 \<and> failed r2 \<and> failed r3 \<and> \<not> failed r4"
  then have ok: "NewRequest_ok env (deviotServer g @ ''/api/v1/gateways'')" by simp
  from h show "\<exists>g3 g4. supervisor env [r1, r2, r3] True g = Ok g3 \<and>
               length (Logger g3) = length (Logger g) + 1 \<and>
               supervisor env [r4] False g3 = Ok g4 \<and>
               length (Logger g4) = length (Logger g3) + 1"
    using supervisor_three_failures [OF ok, of r1 r2 r3 r4] by simp
qed

lemma supervisor_edge_triggered_logging_sample:
  "NewRequest_ok sample_env (deviotServer sample_gateway @ ''/api/v1/gateways'') \<and>
   \<not> IsRegistered sample_gateway \<and>
   failed (DoError (ExternalError ''connection refused'')) \<and>
   failed (DoResponse 503 ''503 Service Unavailable'') \<and>
   \<not> failed (DoResponse 200 ''200 OK'') \<and>
   length (iterations sample_env
           [DoError (ExternalError ''connection refused''),
            DoResponse 503 ''503 Service Unavailable'',
            DoError (ExternalError ''connection refused'')] True sample_gateway) = 3 \<and>
   (case iterations sample_env
           [DoError (ExternalError ''connection refused''),
            DoResponse 503 ''503 Service Unavailable'',
            DoError (ExternalError ''connection refused'')] True sample_gateway ! 1 of
      (first, before, after) \<Rightarrow>
         \<not> first \<and> \<not> state_changed before after \<and> \<not> logged before after \<and>
         unchanged_log before after) \<and>
   (\<exists>g3 g4. supervisor sample_env
               [DoError (ExternalError ''connection refused''),
                DoResponse 503 ''503 Service Unavailable'',
                DoError (ExternalError ''connection refused'')] True sample_gateway = Ok g3 \<and>
            length (Logger g3) = length (Logger sample_gateway) + 1 \<and>
            supervisor sample_env [DoResponse 200 ''200 OK''] False g3 = Ok g4 \<and>
            length (Logger g4) = length (Logger g3) + 1)"
proof -
  have ok: "NewRequest_ok sample_env (deviotServer sample_gateway @ ''/api/v1/gateways'')"
    by (simp add: sample_env_def)
  have u: "\<not> IsRegistered sample_gateway"
    by (simp add: IsRegistered_def sample_gateway_def)
  have f: "failed (DoError (ExternalError ''connection refused''))"
     "failed (DoResponse 503 ''503 Service Unavailable'')"
     "\<not> failed (DoResponse 200 ''200 OK'')"
    by (simp_all add: failed_def)
  have s: "case iterations sample_env
           [DoError (ExternalError ''connection refused''),
            DoResponse 503 ''503 Service Unavailable'',
            DoError (ExternalError ''connection refused'')] True sample_gateway ! 1 of
      (first, before, after) \<Rightarrow> \<not> state_changed before after"
    by (simp add: sample_env_def heartbeat_def setRegistered_def IsRegistered_def Printf_def
          state_changed_def sample_gateway_def)
  note T = supervisor_edge_triggered_logging [of sample_env
         "[DoError (ExternalError ''connection refused''),
            DoResponse 503 ''503 Service Unavailable'',
            DoError (ExternalError ''connection refused'')]"
         sample_gateway
         "DoError (ExternalError ''connection refused'')"
         "DoResponse 503 ''503 Service Unavailable''"
         "DoError (ExternalError ''connection refused'')"
         "DoResponse 200 ''200 OK''"]
  have n: "length (iterations sample_env
           [DoError (ExternalError ''connection refused''),
            DoResponse 503 ''503 Service Unavailable'',
            DoError (ExternalError ''connection refused'')] True sample_gateway) = 3"
    using conjunct1 [OF conjunct2 [OF T]] ok by simp
  then have l: "1 < length (iterations sample_env
           [DoError (ExternalError ''connection refused''),
            DoResponse 503 ''503 Service Unavailable'',
            DoError (ExternalError ''connection refused'')] True sample_gateway)"
    by simp
  note T1 = conjunct1 [OF T, rule_format, OF l]
  note T2 = conjunct2 [OF conjunct2 [OF T], rule_format]
  have m: "case iterations sample_env
           [DoError (ExternalError ''connection refused''),
            DoResponse 503 ''503 Service Unavailable'',
            DoError (ExternalError ''connection refused'')] True sample_gateway ! 1 of
      (first, before, after) \<Rightarrow>
         \<not> first \<and> \<not> state_changed before after \<and> \<not> logged before after \<and>
         unchanged_log before after"
    using T1 s by (auto split: prod.splits)
  have e: "\<exists>g3 g4. supervisor sample_env
               [DoError (ExternalError ''connection refused''),
                DoResponse 503 ''503 Service Unavailable'',
                DoError (ExternalError ''connection refused'')] True sample_gateway = Ok g3 \<and>
            length (Logger g3) = length (Logger sample_gateway) + 1 \<and>
            supervisor sample_env [DoResponse 200 ''200 OK''] False g3 = Ok g4 \<and>
            length (Logger g4) = length (Logger g3) + 1"
    using T2 ok u f by simp
  show ?thesis using ok u f n m e by (intro conjI)
qed

text \<open>
  C7. The result of \<^verbatim>\<open>convert\<close> depends only on the target type and the value, never
  on the declared Property type passed as its first argument.
\<close>

theorem convert_ignores_declared_type:
  "convert env p1 t v = convert env p2 t v"
  by (simp add: convert_def convert_switch_def)

text \<open>
  C8. When the connector has no client, or its client is not connected,
  \<^verbatim>\<open>Publish\<close> hands nothing to the transport, keeps nothing for later (the connector
  is exactly as before) and returns no error; \<^verbatim>\<open>SendData\<close> on a gateway with such a
  connector returns no error and leaves the whole gateway, its log included, as it was.
\<close>

theorem Publish_disconnected_noop:
  assumes "c_client c = None \<or> (\<exists>cl. c_client c = Some cl \<and> \<not> IsConnected cl)"
  shows "Publish env tokenError c data = (None, c) \<and>
         (connector g = Some c \<longrightarrow> SendData env tokenError g data = Ok (None, g))"
  using assms by (auto simp: Publish_def SendData_def split: option.splits)

theorem Publish_disconnected_noop_witness:
  "Publish sample_env (Some (ExternalError ''timeout''))
     \<lparr>c_DataTopic = ''/deviot/_/gw/data'', c_ActionTopic = ''/deviot/_/gw/action'',
      c_connectorServer = ''tcp://broker:1883'',
      c_client = Some \<lparr>IsConnected = False, published = []\<rparr>\<rparr>
     [''temperature'' \<mapsto> VFloat64 seven]
   = (None,
      \<lparr>c_DataTopic = ''/deviot/_/gw/data'', c_ActionTopic = ''/deviot/_/gw/action'',
       c_connectorServer = ''tcp://broker:1883'',
       c_client = Some \<lparr>IsConnected = False, published = []\<rparr>\<rparr>) \<and>
   connector sample_gateway =
     Some \<lparr>c_DataTopic = ''/deviot/_/gw/data'', c_ActionTopic = ''/deviot/_/gw/action'',
           c_connectorServer = ''tcp://broker:1883'', c_client = None\<rparr> \<and>
   SendData sample_env (Some (ExternalError ''timeout'')) sample_gateway
     [''temperature'' \<mapsto> VFloat64 seven]
   = Ok (None, sample_gateway)"
proof -
  have c: "connector sample_gateway =
     Some \<lparr>c_DataTopic = ''/deviot/_/gw/data'', c_ActionTopic = ''/deviot/_/gw/action'',
           c_connectorServer = ''tcp://broker:1883'', c_client = None\<rparr>"
    by (simp add: sample_gateway_def)
  note T1 = Publish_disconnected_noop [of
      "\<lparr>c_DataTopic = ''/deviot/_/gw/data'', c_ActionTopic = ''/deviot/_/gw/action'',
        c_connectorServer = ''tcp://broker:1883'',
        c_client = Some \<lparr>IsConnected = False, published = []\<rparr>\<rparr>"
      sample_env "Some (ExternalError ''timeout'')" "[''temperature'' \<mapsto> VFloat64 seven]"]
  note T2 = Publish_disconnected_noop [of
      "\<lparr>c_DataTopic = ''/deviot/_/gw/data'', c_ActionTopic = ''/deviot/_/gw/action'',
        c_connectorServer = ''tcp://broker:1883'', c_client = None\<rparr>"
      sample_env "Some (ExternalError ''timeout'')" "[''temperature'' \<mapsto> VFloat64 seven]"
      sample_gateway]
  from T1 have 1: "Publish sample_env (Some (ExternalError ''timeout''))
     \<lparr>c_DataTopic = ''/deviot/_/gw/data'', c_ActionTopic = ''/deviot/_/gw/action'',
      c_connectorServer = ''tcp://broker:1883'',
      c_client = Some \<lparr>IsConnected = False, published = []\<rparr>\<rparr>
     [''temperature'' \<mapsto> VFloat64 seven]
   = (None,
      \<lparr>c_DataTopic = ''/deviot/_/gw/data'', c_ActionTopic = ''/deviot/_/gw/action'',
       c_connectorServer = ''tcp://broker:1883'',
       c_client = Some \<lparr>IsConnected = False, published = []\<rparr>\<rparr>)"
    by simp
  from T2 c have 2: "SendData sample_env (Some (ExternalError ''timeout'')) sample_gateway
     [''temperature'' \<mapsto> VFloat64 seven] = Ok (None, sample_gateway)"
    by simp
  show ?thesis using 1 c 2 by (intro conjI)
qed

text \<open>
  C9. \<^verbatim>\<open>NewGateway\<close> replaces every "-" of the supplied name by "_" before storing it.
  Whenever it returns a gateway, the stored Name is the sanitized name and contains no
  "-"; the data and action topics of the gateway and of its connector are built from the
  stored Name; the registration document carries the stored Name and those topics; and a
  name without "-" is stored unchanged.
\<close>

theorem NewGateway_sanitizes_name:
  assumes "NewGateway env name ds cs account opts = Ok g"
  shows "g_Name g = map (\<lambda>x. if x = CHR ''-'' then CHR ''_'' else x) name \<and>
         CHR ''-'' \<notin> set (g_Name g) \<and>
         (CHR ''-'' \<notin> set name \<longrightarrow> g_Name g = name) \<and>
         (\<exists>ns c. connector g = Some c \<and>
               g_Data g = ''/deviot/'' @ ns @ ''/'' @ g_Name g @ ''/data'' \<and>
               g_Action g = ''/deviot/'' @ ns @ ''/'' @ g_Name g @ ''/action'' \<and>
               c_DataTopic c = g_Data g \<and> c_ActionTopic c = g_Action g) \<and>
         model_name (build_model g) = g_Name g \<and>
         model_data (build_model g) = g_Data g \<and>
         model_action (build_model g) = g_Action g"
proof -
  have n: "g_Name g = map (\<lambda>x. if x = CHR ''-'' then CHR ''_'' else x) name"
    using NewGateway_Ok [OF assms] by (simp add: Replace_dash)
  have a: "CHR ''-'' \<notin> set (g_Name g)" unfolding n by auto
  have b: "CHR ''-'' \<notin> set name \<longrightarrow> g_Name g = name" unfolding n
    by (auto intro!: map_idI)
  have t: "\<exists>ns c. connector g = Some c \<and>
               g_Data g = ''/deviot/'' @ ns @ ''/'' @ g_Name g @ ''/data'' \<and>
               g_Action g = ''/deviot/'' @ ns @ ''/'' @ g_Name g @ ''/action'' \<and>
               c_DataTopic c = g_Data g \<and> c_ActionTopic c = g_Action g"
    using NewGateway_Ok [OF assms] by (rule conjunct2)
  have m: "model_name (build_model g) = g_Name g \<and>
         model_data (build_model g) = g_Data g \<and>
         model_action (build_model g) = g_Action g"
    by (simp add: build_model_def)
  show ?thesis using n a b t m by blast
qed

theorem NewGateway_sanitizes_name_witness:
  "NewGateway sample_env ''my-gw'' ''http://deviot'' ''tcp://broker:1883'' ''a@b'' None =
     Ok (sample_gateway\<lparr>g_Name := ''my_gw'', g_Account := ''a@b'',
         g_Data := ''/deviot/ab/my_gw/data'', g_Action := ''/deviot/ab/my_gw/action'',
         connector := Some \<lparr>c_DataTopic = ''/deviot/ab/my_gw/data'',
                            c_ActionTopic = ''/deviot/ab/my_gw/action'',
                            c_connectorServer = ''tcp://broker:1883'', c_client = None\<rparr>\<rparr>) \<and>
   CHR ''-'' \<notin> set ''my_gw'' \<and>
   NewGateway sample_env ''gw'' ''http://deviot'' ''tcp://broker:1883'' '''' None =
     Ok sample_gateway \<and>
   CHR ''-'' \<notin> set ''gw'' \<and> g_Name sample_gateway = ''gw''"
proof -
  have h2: "NewGateway sample_env ''gw'' ''http://deviot'' ''tcp://broker:1883'' '''' None =
     Ok sample_gateway"
    by (simp add: NewGateway_def NewMqttConnector_def sample_env_def sample_gateway_def
          Replace.simps GatewayModeMqtt_def Let_def)
  have d: "CHR ''-'' \<notin> set ''gw''" by simp
  from NewGateway_sanitizes_name [OF NewGateway_sample]
       NewGateway_sanitizes_name [OF h2] NewGateway_sample h2 d
  show ?thesis by simp
qed

text \<open>
  C10, as amended. For an id that is not yet registered, \<^verbatim>\<open>Register\<close> panics, before
  it stores anything or calls \<^verbatim>\<open>Init\<close>, when the Instance is nil or the kind of its
  dynamic type is none of Pointer, Array, Chan, Map and Slice (the kinds for which
  \<^verbatim>\<open>Elem\<close> is defined); when the kind is one of these, a pointer in particular, it
  returns with the pair stored under the id. For an id already registered it returns
  without a panic whatever the Instance is.
\<close>

theorem Register_panics_without_elem:
  "(g_Things g tid \<noteq> None \<longrightarrow> (\<exists>g'. Register env g tid name inst = Ok g')) \<and>
   (g_Things g tid = None \<and> inst = None \<longrightarrow>
      Register env g tid name inst = Panic NilPointerDereference) \<and>
   (g_Things g tid = None \<and> inst = Some i \<and> \<not> has_elem (type_kind (i_type i)) \<longrightarrow>
      Register env g tid name inst = Panic (ElemOfInvalidType (type_kind (i_type i)))) \<and>
   (g_Things g tid = None \<and> inst = Some i \<and> has_elem (type_kind (i_type i)) \<and>
    type_elem (i_type i) = Some et \<longrightarrow>
      (\<exists>g'. Register env g tid name inst = Ok g' \<and>
         g_Things g' =
           (g_Things g)(tid \<mapsto>
              \<lparr>w_thing = i_Init i \<lparr>t_Id = tid, t_Name = name,
                                    t_Kind = last (Split (ToLower env (type_name et)) CHR ''.''),
                                    t_Actions = [], t_Properties = []\<rparr>,
               w_instance = i\<rparr>)))"
  by (auto simp: Register_def Elem_def Printf_def Let_def)

theorem Register_panics_without_elem_witness:
  "g_Things (lamp_gateway ''SetOn'') ''lamp1'' \<noteq> None \<and>
   (\<exists>g'. Register sample_env (lamp_gateway ''SetOn'') ''lamp1'' ''Probe'' (Some probe) = Ok g') \<and>
   g_Things sample_gateway ''p1'' = None \<and>
   Register sample_env sample_gateway ''p1'' ''Nil'' None = Panic NilPointerDereference \<and>
   \<not> has_elem (type_kind (i_type probe)) \<and>
   Register sample_env sample_gateway ''p1'' ''Probe'' (Some probe) = Panic (ElemOfInvalidType KStruct) \<and>
   has_elem (type_kind (i_type (lamp ''SetOn''))) \<and>
   type_elem (i_type (lamp ''SetOn'')) = Some (basic ''main.Lamp'' KStruct) \<and>
   (\<exists>g'. Register sample_env sample_gateway ''p1'' ''Lamp'' (Some (lamp ''SetOn'')) = Ok g' \<and>
      g_Things g' ''p1'' =
        Some \<lparr>w_thing = i_Init (lamp ''SetOn'')
                 \<lparr>t_Id = ''p1'', t_Name = ''Lamp'', t_Kind = ''lamp'',
                  t_Actions = [], t_Properties = []\<rparr>,
              w_instance = lamp ''SetOn''\<rparr>)"
proof -
  have a: "g_Things (lamp_gateway ''SetOn'') ''lamp1'' \<noteq> None"
    by (simp add: lamp_gateway_eq)
  have b: "g_Things sample_gateway ''p1'' = None"
    by (simp add: sample_gateway_def)
  have c: "\<not> has_elem (type_kind (i_type probe))" "type_kind (i_type probe) = KStruct"
    by (simp_all add: probe_def has_elem_def)
  have d: "has_elem (type_kind (i_type (lamp ''SetOn'')))"
    "type_elem (i_type (lamp ''SetOn'')) = Some (basic ''main.Lamp'' KStruct)"
    by (simp_all add: lamp_def has_elem_def)
  have k: "last (Split (ToLower sample_env ''main.Lamp'') CHR ''.'') = ''lamp''"
    by (simp add: ToLower_def lower_char_def)
  note T1 = Register_panics_without_elem [where env = sample_env
      and g = "lamp_gateway ''SetOn''" and tid = "''lamp1''" and name = "''Probe''"
      and inst = "Some probe"]
  note T2 = Register_panics_without_elem [where env = sample_env and g = sample_gateway
      and tid = "''p1''" and name = "''Nil''" and inst = None]
  note T3 = Register_panics_without_elem [where env = sample_env and g = sample_gateway
      and tid = "''p1''" and name = "''Probe''" and inst = "Some probe" and i = probe]
  note T4 = Register_panics_without_elem [where env = sample_env and g = sample_gateway
      and tid = "''p1''" and name = "''Lamp''" and inst = "Some (lamp ''SetOn'')"
      and i = "lamp ''SetOn''" and et = "basic ''main.Lamp'' KStruct"]
  from T1 a have 1: "\<exists>g'. Register sample_env (lamp_gateway ''SetOn'') ''lamp1'' ''Probe'' (Some probe) = Ok g'"
    by simp
  from T2 b have 2: "Register sample_env sample_gateway ''p1'' ''Nil'' None = Panic NilPointerDereference"
    by simp
  from T3 b c have 3: "Register sample_env sample_gateway ''p1'' ''Probe'' (Some probe)
      = Panic (ElemOfInvalidType KStruct)"
    by simp
  from T4 b d k have 4: "\<exists>g'. Register sample_env sample_gateway ''p1'' ''Lamp'' (Some (lamp ''SetOn'')) = Ok g' \<and>
      g_Things g' ''p1'' =
        Some \<lparr>w_thing = i_Init (lamp ''SetOn'')
                 \<lparr>t_Id = ''p1'', t_Name = ''Lamp'', t_Kind = ''lamp'',
                  t_Actions = [], t_Properties = []\<rparr>,
              w_instance = lamp ''SetOn''\<rparr>"
    by auto
  show ?thesis using a b c(1) d 1 2 3 4 by (intro conjI)
qed

text \<open>
  C10 as stated fails: a struct value offered under an id that is already registered is
  turned away with a log line and no panic, and a map-typed Instance under a fresh id is
  registered, its kind derived from the map's element type.
\<close>

theorem Register_non_pointer_counterexample:
  "type_kind (i_type probe) \<noteq> KPointer \<and>
   Register sample_env (lamp_gateway ''SetOn'') ''lamp1'' ''Probe'' (Some probe)
     = Ok (Printf ''Thing %s has already been registered'' [LStr ''lamp1'']
             (lamp_gateway ''SetOn'')) \<and>
   type_kind (i_type table) \<noteq> KPointer \<and>
   Register sample_env sample_gateway ''t1'' ''Table'' (Some table)
     = Ok (Printf ''Thing %s.%s(%v) registered'' [LStr ''t1'', LStr ''Table'', LStr ''cell'']
             (sample_gateway
                \<lparr>g_Things := [''t1'' \<mapsto>
                    \<lparr>w_thing = \<lparr>t_Id = ''t1'', t_Name = ''Table'', t_Kind = ''cell'',
                                t_Actions = [], t_Properties = []\<rparr>,
                     w_instance = table\<rparr>],
                 calls := [InitCall 4 \<lparr>t_Id = ''t1'', t_Name = ''Table'', t_Kind = ''cell'',
                                      t_Actions = [], t_Properties = []\<rparr>]\<rparr>))"
  by (simp add: probe_def table_def lamp_gateway_eq Register_def sample_gateway_def
        Elem_def has_elem_def ToLower_def lower_char_def Printf_def Let_def)

end
